theory Spec2Isabelle
  imports Main "HOL-Library.Word" "HOL-Library.Char_ord" "HOL-Library.List_Lexorder"
begin

unbundle bit_operations_syntax

section \<open>Go error values\<close>

text \<open>
  A Go \<^verbatim>\<open>error\<close> is an interface value; \<^verbatim>\<open>nil\<close> is \<open>None\<close> of \<open>error option\<close>.
  The constructors are the error values the modelled packages create or compare against:
  the sentinels of \<^verbatim>\<open>context\<close>, \<^verbatim>\<open>gorm\<close>, \<^verbatim>\<open>path/filepath\<close>, \<^verbatim>\<open>hexutil\<close> and
  \<^verbatim>\<open>encoding/hex\<close>, the
  results of \<^verbatim>\<open>fmt.Errorf\<close> (kept as the format string and its operand), of
  \<^verbatim>\<open>errors.New\<close> and \<^verbatim>\<open>errors.Wrap\<close> of \<^verbatim>\<open>github.com/pkg/errors\<close>, and the
  \<^verbatim>\<open>ErrFailedPermanently\<close> struct of package \<^verbatim>\<open>retry\<close>. \<open>Failure\<close> stands for any other
  error a driver or the operating system reports.
\<close>

datatype error =
    Canceled
  | DeadlineExceeded
  | ErrRecordNotFound
  | SkipDir
  | SkipAll
  | ErrEmptyString
  | ErrMissingPrefix
  | ErrOddLength
  | ErrSyntax
  | ErrLength
  | InvalidByteError char
  | Failure string
  | New string
  | Wrap error string
  | ErrorfS string
  | ErrorfD string int
  | ErrorfT string string
  | ErrorfW string error
  | ErrFailedPermanently (attempts: int) (LastErr: "error option")

text \<open>
  \<^verbatim>\<open>func (e *ErrFailedPermanently) Unwrap() error { return e.LastErr }\<close>; the other two
  equations are the \<^verbatim>\<open>Unwrap\<close> of an \<^verbatim>\<open>fmt.Errorf\<close> with \<^verbatim>\<open>%w\<close> and of a wrapped
  \<^verbatim>\<open>pkg/errors\<close> value.
\<close>

fun Unwrap :: "error \<Rightarrow> error option" where
  "Unwrap (ErrFailedPermanently n e) = e"
| "Unwrap (ErrorfW f e) = Some e"
| "Unwrap (Wrap e m) = Some e"
| "Unwrap _ = None"

text \<open>\<^verbatim>\<open>errors.Is(err, target)\<close>: \<open>err\<close> or an error on its \<^verbatim>\<open>Unwrap\<close> chain equals \<open>target\<close>.\<close>

fun errors_Is :: "error \<Rightarrow> error \<Rightarrow> bool" where
  "errors_Is (ErrFailedPermanently n le) t =
     (ErrFailedPermanently n le = t \<or> (case le of None \<Rightarrow> False | Some e \<Rightarrow> errors_Is e t))"
| "errors_Is (ErrorfW f e) t = (ErrorfW f e = t \<or> errors_Is e t)"
| "errors_Is (Wrap e m) t = (Wrap e m = t \<or> errors_Is e t)"
| "errors_Is e t = (e = t)"

section \<open>Package retry\<close>

text \<open>
  \<^verbatim>\<open>Do\<close> has three effects: it reads \<^verbatim>\<open>ctx.Err()\<close>, it calls \<^verbatim>\<open>op()\<close> and it calls
  \<^verbatim>\<open>time.Sleep\<close>. The record \<open>effects\<close> logs what one call of \<^verbatim>\<open>Do\<close> has done so far: how
  often it has invoked \<^verbatim>\<open>op\<close>, and the durations it has passed to \<^verbatim>\<open>time.Sleep\<close>, in
  order. An operation is a closure \<^verbatim>\<open>func() (T, error)\<close>; its result may differ from call
  to call, so it is modelled by its result at each invocation, counted from 0. A context
  is modelled by what \<^verbatim>\<open>ctx.Err()\<close> answers after the effects so far; a \<open>Strategy\<close> by its
  method \<^verbatim>\<open>Duration(attempt int) time.Duration\<close>.
\<close>

record effects =
  invoked :: nat
  slept :: "int list"

type_synonym Context = "effects \<Rightarrow> error option"
type_synonym 'a operation = "nat \<Rightarrow> 'a \<times> error option"
type_synonym Strategy = "int \<Rightarrow> int"

definition no_effects :: effects where
  "no_effects = \<lparr>invoked = 0, slept = []\<rparr>"

text \<open>\<^verbatim>\<open>context.Background()\<close>: never cancelled, \<^verbatim>\<open>Err()\<close> is always \<^verbatim>\<open>nil\<close>.\<close>

definition Background :: Context where
  "Background = (\<lambda>w. None)"

text \<open>
  The loop \<^verbatim>\<open>for i := 0; i < maxAttempts; i++\<close> of \<^verbatim>\<open>Do\<close>, entered at index \<open>i\<close> with the
  variable \<^verbatim>\<open>err\<close> holding \<open>err\<close>. \<open>emptyT\<close> is the zero value of \<^verbatim>\<open>T\<close>. Go's \<^verbatim>\<open>int\<close> is
  modelled by \<open>int\<close>: with \<open>1 \<le> maxAttempts\<close> neither \<open>i + 1\<close> nor \<open>maxAttempts - 1\<close>
  leaves the 64-bit range.
\<close>

function Do_loop ::
  "Context \<Rightarrow> int \<Rightarrow> Strategy \<Rightarrow> 'a operation \<Rightarrow> 'a \<Rightarrow> int \<Rightarrow> error option \<Rightarrow> effects
     \<Rightarrow> ('a \<times> error option) \<times> effects" where
  "Do_loop ctx maxAttempts strategy op emptyT i err w =
     (if i < maxAttempts then
        (case ctx w of
           Some cerr \<Rightarrow> ((emptyT, Some cerr), w)
         | None \<Rightarrow>
            (case op (invoked w) of
               (ret, None) \<Rightarrow> ((ret, None), w\<lparr>invoked := invoked w + 1\<rparr>)
             | (ret, Some e) \<Rightarrow>
                 Do_loop ctx maxAttempts strategy op emptyT (i + 1) (Some e)
                   (if i \<noteq> maxAttempts - 1
                    then w\<lparr>invoked := invoked w + 1, slept := slept w @ [strategy i]\<rparr>
                    else w\<lparr>invoked := invoked w + 1\<rparr>)))
      else ((emptyT, Some (ErrFailedPermanently maxAttempts err)), w))"
  by pat_completeness auto
termination
  by (relation "measure (\<lambda>(ctx, maxAttempts, strategy, op, emptyT, i, err, w). nat (maxAttempts - i))")
     auto

declare Do_loop.simps [simp del]

definition Do ::
  "Context \<Rightarrow> int \<Rightarrow> Strategy \<Rightarrow> 'a operation \<Rightarrow> 'a \<Rightarrow> ('a \<times> error option) \<times> effects" where
  "Do ctx maxAttempts strategy op emptyT =
     (if maxAttempts < 1
      then ((emptyT, Some (ErrorfD ''need at least 1 attempt to run op, but have %d max attempts''
                            maxAttempts)), no_effects)
      else Do_loop ctx maxAttempts strategy op emptyT 0 None no_effects)"

text \<open>
  \<^verbatim>\<open>Do2\<close> bundles the two results of \<open>op\<close> into a \<^verbatim>\<open>pair[T, U]\<close>, runs \<^verbatim>\<open>Do\<close> and
  unbundles; the zero value of the pair is the pair of the zero values.
\<close>

definition Do2 ::
  "Context \<Rightarrow> int \<Rightarrow> Strategy \<Rightarrow> (nat \<Rightarrow> 'a \<times> 'b \<times> error option) \<Rightarrow> 'a \<Rightarrow> 'b
     \<Rightarrow> ('a \<times> 'b \<times> error option) \<times> effects" where
  "Do2 ctx maxAttempts strategy op emptyA emptyB =
     (let f = (\<lambda>k. case op k of (a, b, err) \<Rightarrow> ((a, b), err)) in
      case Do ctx maxAttempts strategy f (emptyA, emptyB) of
        ((res, err), w) \<Rightarrow> ((fst res, snd res, err), w))"

text \<open>
  The effects of \<open>k\<close> failed attempts none of which was the last one: \<open>k\<close> invocations,
  and one sleep of \<open>strategy j\<close> after the failure of attempt \<open>j\<close>.
\<close>

definition trail :: "Strategy \<Rightarrow> nat \<Rightarrow> effects" where
  "trail strategy k = \<lparr>invoked = k, slept = map (\<lambda>j. strategy (int j)) [0..<k]\<rparr>"

section \<open>Hexadecimal text: encoding/hex and hexutil\<close>

text \<open>
  The codec calls \<^verbatim>\<open>hexutil.Encode\<close> and \<^verbatim>\<open>hexutil.Decode\<close> of go-ethereum, which rest on
  \<^verbatim>\<open>encoding/hex\<close>. They are modelled on bytes (\<open>8 word\<close>) and Go strings (byte
  sequences, here \<open>string\<close>) after the library's code: \<^verbatim>\<open>hex.Encode\<close> writes
  \<^verbatim>\<open>hextable[v>>4]\<close> and \<^verbatim>\<open>hextable[v&0x0f]\<close> for each byte; \<^verbatim>\<open>hex.Decode\<close> looks up
  \<^verbatim>\<open>reverseHexTable\<close> (255 for a byte that is no hex digit), reports the first pair with
  an invalid digit as \<^verbatim>\<open>InvalidByteError\<close> and a trailing single digit as \<^verbatim>\<open>ErrLength\<close>.
\<close>

type_synonym byte = "8 word"

definition hextable :: string where
  "hextable = ''0123456789abcdef''"

fun hex_EncodeToString :: "byte list \<Rightarrow> string" where
  "hex_EncodeToString [] = []"
| "hex_EncodeToString (v # src) =
     hextable ! unat (drop_bit 4 v) # hextable ! unat (v AND 15) # hex_EncodeToString src"

definition reverseHexTable :: "char \<Rightarrow> byte" where
  "reverseHexTable c =
     (let n = (of_char c :: nat) in
      if 48 \<le> n \<and> n \<le> 57 then of_nat (n - 48)
      else if 97 \<le> n \<and> n \<le> 102 then of_nat (n - 87)
      else if 65 \<le> n \<and> n \<le> 70 then of_nat (n - 55)
      else 255)"

fun hex_DecodeString :: "string \<Rightarrow> error + byte list" where
  "hex_DecodeString [] = Inr []"
| "hex_DecodeString [p] =
     (if reverseHexTable p > 15 then Inl (InvalidByteError p) else Inl ErrLength)"
| "hex_DecodeString (p # q # src) =
     (if reverseHexTable p > 15 then Inl (InvalidByteError p)
      else if reverseHexTable q > 15 then Inl (InvalidByteError q)
      else (case hex_DecodeString src of
              Inl err \<Rightarrow> Inl err
            | Inr dst \<Rightarrow> Inr ((push_bit 4 (reverseHexTable p) OR reverseHexTable q) # dst)))"

definition has0xPrefix :: "string \<Rightarrow> bool" where
  "has0xPrefix input =
     (length input \<ge> 2 \<and> input ! 0 = CHR ''0'' \<and> (input ! 1 = CHR ''x'' \<or> input ! 1 = CHR ''X''))"

fun mapError :: "error \<Rightarrow> error" where
  "mapError (InvalidByteError c) = ErrSyntax"
| "mapError ErrLength = ErrOddLength"
| "mapError err = err"

definition hexutil_Decode :: "string \<Rightarrow> error + byte list" where
  "hexutil_Decode input =
     (if length input = 0 then Inl ErrEmptyString
      else if \<not> has0xPrefix input then Inl ErrMissingPrefix
      else (case hex_DecodeString (drop 2 input) of
              Inl err \<Rightarrow> Inl (mapError err)
            | Inr b \<Rightarrow> Inr b))"

definition hexutil_Encode :: "byte list \<Rightarrow> string" where
  "hexutil_Encode b = ''0x'' @ hex_EncodeToString b"

section \<open>Package serializers: BytesSerializer\<close>

text \<open>
  \<^verbatim>\<open>Scan\<close> and \<^verbatim>\<open>Value\<close> work through \<^verbatim>\<open>reflect\<close> and through the two capability
  interfaces. The part of Go they depend on:
  \<^item> a type is a defined type of array or struct kind, known by its name (\<^verbatim>\<open>common.Address\<close>,
    \<^verbatim>\<open>common.Hash\<close>, \<^verbatim>\<open>big.Int\<close>), or a pointer to a type;
  \<^item> a defined type may declare \<^verbatim>\<open>Bytes() []byte\<close> and \<^verbatim>\<open>SetBytes([]byte)\<close>, each with a
    value or a pointer receiver; by Go's method sets a defined type \<open>T\<close> has the methods with
    receiver \<open>T\<close>, \<open>*T\<close> has those with receiver \<open>T\<close> or \<open>*T\<close>, and a pointer to a pointer
    has none;
  \<^item> a value is a value of a defined type, a nil pointer, or a pointer to a freshly allocated
    value (no two pointers of the model share a target, as none do in \<^verbatim>\<open>Scan\<close>).
  \<open>'v\<close> is the content of the values of the defined types. For a defined type,
  \<open>zeroValue\<close> is the content of its zero value, \<open>BytesFn a\<close> is what \<^verbatim>\<open>Bytes()\<close> returns
  for content \<open>a\<close>, and \<open>SetBytesFn b a\<close> is the content of a value with content \<open>a\<close>
  after \<^verbatim>\<open>SetBytes(b)\<close> was called through a pointer to it.
\<close>

datatype gotype = Named string | PtrT gotype

datatype kind = Invalid | Pointer | Other

datatype recv = ValueRecv | PtrRecv

record 'v typeinfo =
  zeroValue :: 'v
  BytesRecv :: "recv option"
  BytesFn :: "'v \<Rightarrow> byte list"
  SetBytesRecv :: "recv option"
  SetBytesFn :: "byte list \<Rightarrow> 'v \<Rightarrow> 'v"

type_synonym 'v tyenv = "string \<Rightarrow> 'v typeinfo"

datatype 'v govalue = Val string 'v | NilPtr gotype | Ref "'v govalue"

datatype 'a outcome = Panic | Return 'a

fun TypeOf :: "'v govalue \<Rightarrow> gotype" where
  "TypeOf (Val n v) = Named n"
| "TypeOf (NilPtr t) = PtrT t"
| "TypeOf (Ref x) = PtrT (TypeOf x)"

fun Kind :: "gotype \<Rightarrow> kind" where
  "Kind (Named n) = Other"
| "Kind (PtrT t) = Pointer"

text \<open>The text \<^verbatim>\<open>%T\<close> prints for a type.\<close>

fun type_String :: "gotype \<Rightarrow> string" where
  "type_String (Named n) = n"
| "type_String (PtrT t) = CHR ''*'' # type_String t"

fun implements :: "(string \<Rightarrow> recv option) \<Rightarrow> gotype \<Rightarrow> bool" where
  "implements m (Named n) = (m n = Some ValueRecv)"
| "implements m (PtrT (Named n)) = (m n \<noteq> None)"
| "implements m (PtrT (PtrT t)) = False"

fun Zero :: "'v tyenv \<Rightarrow> gotype \<Rightarrow> 'v govalue" where
  "Zero env (Named n) = Val n (zeroValue (env n))"
| "Zero env (PtrT t) = NilPtr t"

text \<open>\<^verbatim>\<open>reflect.New(t)\<close>: a pointer to a new zero value of \<open>t\<close>.\<close>

definition reflect_New :: "'v tyenv \<Rightarrow> gotype \<Rightarrow> 'v govalue" where
  "reflect_New env t = Ref (Zero env t)"

text \<open>
  A \<^verbatim>\<open>reflect.Value\<close> is the zero Value or holds a Go value. \<^verbatim>\<open>Kind\<close> of the zero Value is
  \<^verbatim>\<open>Invalid\<close>. \<^verbatim>\<open>Elem\<close> of a pointer is the value pointed to, and the zero Value when the
  pointer is nil; on a Value of another kind it panics.
\<close>

datatype 'v rvalue = ZeroValue | RV "'v govalue"

fun rv_Kind :: "'v rvalue \<Rightarrow> kind" where
  "rv_Kind ZeroValue = Invalid"
| "rv_Kind (RV x) = Kind (TypeOf x)"

fun rv_Elem :: "'v rvalue \<Rightarrow> 'v rvalue outcome" where
  "rv_Elem (RV (Ref x)) = Return (RV x)"
| "rv_Elem (RV (NilPtr t)) = Return ZeroValue"
| "rv_Elem (RV (Val n v)) = Panic"
| "rv_Elem ZeroValue = Panic"

text \<open>
  \<^verbatim>\<open>reflect.ValueOf(x).IsNil()\<close> panics on a value of array or struct kind. Calling
  \<^verbatim>\<open>SetBytes\<close> or \<^verbatim>\<open>Bytes\<close> through an interface value reaches the method of the defined
  type; through a nil pointer the methods of the fixed-width types dereference it and
  panic.
\<close>

fun IsNil :: "'v govalue \<Rightarrow> bool outcome" where
  "IsNil (NilPtr t) = Return True"
| "IsNil (Ref x) = Return False"
| "IsNil (Val n v) = Panic"

fun call_SetBytes :: "'v tyenv \<Rightarrow> byte list \<Rightarrow> 'v govalue \<Rightarrow> 'v govalue outcome" where
  "call_SetBytes env b (Ref (Val n v)) = Return (Ref (Val n (SetBytesFn (env n) b v)))"
| "call_SetBytes env b x = Panic"

fun call_Bytes :: "'v tyenv \<Rightarrow> 'v govalue \<Rightarrow> byte list outcome" where
  "call_Bytes env (Val n v) = Return (BytesFn (env n) v)"
| "call_Bytes env (Ref (Val n v)) = Return (BytesFn (env n) v)"
| "call_Bytes env x = Panic"

text \<open>
  What the database driver hands to \<^verbatim>\<open>Scan\<close> as \<^verbatim>\<open>dbValue interface{}\<close>, and the name of
  its dynamic type.
\<close>

datatype dbvalue = DBNil | DBString string | DBBytes "byte list" | DBInt64 int | DBBool bool

fun typeName :: "dbvalue \<Rightarrow> string" where
  "typeName DBNil = ''<nil>''"
| "typeName (DBString s) = ''string''"
| "typeName (DBBytes b) = ''[]uint8''"
| "typeName (DBInt64 i) = ''int64''"
| "typeName (DBBool b) = ''bool''"

text \<open>
  \<^verbatim>\<open>Scan\<close> from line 63 on, with the decoded bytes \<open>b\<close>. \<open>fieldValue\<close> is the pointer
  \<^verbatim>\<open>reflect.New(field.FieldType)\<close>; \<open>dst\<close> is the field of the destination struct, which
  the last statement overwrites with \<^verbatim>\<open>fieldValue.Elem()\<close>. In the pointer branch
  \<^verbatim>\<open>nestedField.Set\<close> stores a new pointer in the cell \<open>fieldValue\<close> points to, and
  \<^verbatim>\<open>SetBytes\<close> then writes through that pointer.
\<close>

definition Scan_decoded ::
  "'v tyenv \<Rightarrow> gotype \<Rightarrow> 'v govalue \<Rightarrow> byte list \<Rightarrow> (error option \<times> 'v govalue) outcome" where
  "Scan_decoded env FieldType dst b =
     (let fieldValue = reflect_New env FieldType in
      case FieldType of
        Named n \<Rightarrow>
          (let fieldInterface = fieldValue in
           if \<not> implements (\<lambda>n. SetBytesRecv (env n)) (TypeOf fieldInterface)
           then Return (Some (ErrorfT ''field does not satisfy the `SetBytes([]byte)` interface: %T''
                                (type_String (TypeOf fieldInterface))), dst)
           else (case call_SetBytes env b fieldInterface of
                   Panic \<Rightarrow> Panic
                 | Return fieldValue' \<Rightarrow>
                     (case rv_Elem (RV fieldValue') of
                        Panic \<Rightarrow> Panic
                      | Return ZeroValue \<Rightarrow> Panic
                      | Return (RV x) \<Rightarrow> Return (None, x))))
      | PtrT elemType \<Rightarrow>
          (case rv_Elem (RV fieldValue) of
             Panic \<Rightarrow> Panic
           | Return nestedField \<Rightarrow>
               (case rv_Elem nestedField of
                  Panic \<Rightarrow> Panic
                | Return nestedElem \<Rightarrow>
                    if rv_Kind nestedElem = Pointer
                    then Return (Some (ErrorfT ''double pointers are the max depth supported: %T''
                                         ''reflect.Value''), dst)
                    else
                      (let fieldInterface = reflect_New env elemType in
                       if \<not> implements (\<lambda>n. SetBytesRecv (env n)) (TypeOf fieldInterface)
                       then Return (Some (ErrorfT
                              ''field does not satisfy the `SetBytes([]byte)` interface: %T''
                              (type_String (TypeOf fieldInterface))), dst)
                       else (case call_SetBytes env b fieldInterface of
                               Panic \<Rightarrow> Panic
                             | Return nested' \<Rightarrow> Return (None, nested'))))))"

definition Scan ::
  "'v tyenv \<Rightarrow> gotype \<Rightarrow> 'v govalue \<Rightarrow> dbvalue \<Rightarrow> (error option \<times> 'v govalue) outcome" where
  "Scan env FieldType dst dbValue =
     (case dbValue of
        DBNil \<Rightarrow> Return (None, dst)
      | DBString hexStr \<Rightarrow>
          (case hexutil_Decode hexStr of
             Inl err \<Rightarrow> Return (Some (ErrorfW ''failed to decode database value: %w'' err), dst)
           | Inr b \<Rightarrow> Scan_decoded env FieldType dst b)
      | _ \<Rightarrow> Return (Some (ErrorfT ''expected hex string as the database value: %T''
                            (typeName dbValue)), dst))"

text \<open>
  \<^verbatim>\<open>Value\<close>: \<open>fieldValue\<close> is \<open>None\<close> for the nil interface; \<^verbatim>\<open>||\<close> and \<^verbatim>\<open>&&\<close> evaluate
  \<^verbatim>\<open>IsNil\<close> only for a field type of pointer kind.
\<close>

definition Value ::
  "'v tyenv \<Rightarrow> gotype \<Rightarrow> 'v govalue option \<Rightarrow> (dbvalue \<times> error option) outcome" where
  "Value env FieldType fieldValue =
     (case fieldValue of
        None \<Rightarrow> Return (DBNil, None)
      | Some x \<Rightarrow>
          (case (if Kind FieldType = Pointer then IsNil x else Return False) of
             Panic \<Rightarrow> Panic
           | Return True \<Rightarrow> Return (DBNil, None)
           | Return False \<Rightarrow>
               if \<not> implements (\<lambda>n. BytesRecv (env n)) (TypeOf x)
               then Return (DBNil, Some (ErrorfS ''field does not satisfy the `Bytes() []byte` interface''))
               else (case call_Bytes env x of
                       Panic \<Rightarrow> Panic
                     | Return fieldBytes \<Rightarrow> Return (DBString (hexutil_Encode fieldBytes), None))))"

section \<open>Package database: the addresses table\<close>

text \<open>
  \<^verbatim>\<open>common.Address\<close> is \<^verbatim>\<open>[20]byte\<close>. \<^verbatim>\<open>Address.String()\<close> is the EIP-55 text: \<^verbatim>\<open>0x\<close>
  and the lower-case hex digits, of which \<^verbatim>\<open>checksumHex\<close> turns a letter into upper case
  (\<^verbatim>\<open>buf[i] -= 32\<close>) when the matching nibble of the Keccak-256 digest of the digits is
  above 7. The hash is not modelled: \<open>Keccak256\<close> is a parameter. \<^verbatim>\<open>strings.ToLower\<close> is
  modelled on ASCII text, which the text of an address is.
\<close>

definition checksumHex :: "(string \<Rightarrow> byte list) \<Rightarrow> byte list \<Rightarrow> string" where
  "checksumHex Keccak256 a =
     (let buf = hex_EncodeToString a; hash = Keccak256 buf in
      ''0x'' @ map (\<lambda>j. let c = buf ! j;
                          hashByte = (if even j then drop_bit 4 (hash ! (j div 2))
                                      else hash ! (j div 2) AND 15)
                      in if of_char c > (57 :: nat) \<and> hashByte > 7
                         then char_of (of_char c - (32 :: nat)) else c)
                 [0..<length buf])"

definition Address_String :: "(string \<Rightarrow> byte list) \<Rightarrow> byte list \<Rightarrow> string" where
  "Address_String Keccak256 a = checksumHex Keccak256 a"

definition ToLower :: "string \<Rightarrow> string" where
  "ToLower s = map (\<lambda>c. if 65 \<le> (of_char c :: nat) \<and> (of_char c :: nat) \<le> 90
                        then char_of (of_char c + (32 :: nat)) else c) s"

record Addresses =
  GUID :: string
  Address :: "byte list"
  AddressType :: byte
  PublicKey :: string
  Timestamp :: "64 word"

text \<open>
  The \<^verbatim>\<open>*gorm.DB\<close> handle, as far as the queries of \<^verbatim>\<open>addressesDB\<close> see it: the rows of
  table \<^verbatim>\<open>addresses\<close> in the order the engine scans them, and the error, if any, with
  which the engine or the driver fails a statement. The \<^verbatim>\<open>address\<close> column holds the text
  \<^verbatim>\<open>BytesSerializer.Value\<close> writes, \<open>hexutil_Encode\<close> of the address bytes.
  \<^verbatim>\<open>Where(column, v)\<close> with one operand is the equality \<^verbatim>\<open>column = v\<close>. \<^verbatim>\<open>Take\<close> fetches one
  matching row (\<^verbatim>\<open>LIMIT 1\<close>) and fails with \<^verbatim>\<open>ErrRecordNotFound\<close> when there is none;
  \<^verbatim>\<open>First\<close> does so in the order of the primary key \<^verbatim>\<open>guid\<close>.
\<close>

record gormDB =
  rows :: "Addresses list"
  fault :: "error option"

definition Where_address :: "string \<Rightarrow> Addresses \<Rightarrow> bool" where
  "Where_address v r = (hexutil_Encode (Address r) = v)"

definition Where_address_type :: "byte \<Rightarrow> Addresses \<Rightarrow> bool" where
  "Where_address_type v r = (AddressType r = v)"

definition Take :: "gormDB \<Rightarrow> (Addresses \<Rightarrow> bool) \<Rightarrow> error + Addresses" where
  "Take g cond =
     (case fault g of
        Some err \<Rightarrow> Inl err
      | None \<Rightarrow> (case find cond (rows g) of
                   None \<Rightarrow> Inl ErrRecordNotFound
                 | Some r \<Rightarrow> Inr r))"

definition First :: "gormDB \<Rightarrow> (Addresses \<Rightarrow> bool) \<Rightarrow> error + Addresses" where
  "First g cond = Take (g\<lparr>rows := sort_key GUID (rows g)\<rparr>) cond"

definition AddressExist :: "(string \<Rightarrow> byte list) \<Rightarrow> gormDB \<Rightarrow> byte list \<Rightarrow> bool \<times> byte" where
  "AddressExist Keccak256 g address =
     (case First g (Where_address (ToLower (Address_String Keccak256 address))) of
        Inl err \<Rightarrow> (if errors_Is err ErrRecordNotFound then (False, 0) else (False, 0))
      | Inr addressEntry \<Rightarrow> (True, AddressType addressEntry))"

definition QueryHotWalletInfo :: "gormDB \<Rightarrow> Addresses option \<times> error option" where
  "QueryHotWalletInfo g =
     (case Take g (Where_address_type 1) of
        Inl err \<Rightarrow> (if errors_Is err ErrRecordNotFound then (None, None) else (None, Some err))
      | Inr addressEntry \<Rightarrow> (Some addressEntry, None))"

definition QueryColdWalletInfo :: "gormDB \<Rightarrow> Addresses option \<times> error option" where
  "QueryColdWalletInfo g =
     (case Take g (Where_address_type 2) of
        Inl err \<Rightarrow> (if errors_Is err ErrRecordNotFound then (None, None) else (None, Some err))
      | Inr addressEntry \<Rightarrow> (Some addressEntry, None))"

section \<open>Package database: NewDB\<close>

text \<open>\<^verbatim>\<open>%d\<close> of \<^verbatim>\<open>fmt.Sprintf\<close>: the decimal text of an integer.\<close>

fun digits :: "nat \<Rightarrow> string" where
  "digits n = (if n < 10 then [char_of (48 + n)]
               else digits (n div 10) @ [char_of (48 + n mod 10)])"

definition itoa :: "int \<Rightarrow> string" where
  "itoa i = (if i < 0 then CHR ''-'' # digits (nat (- i)) else digits (nat i))"

record DBConfig =
  Host :: string
  Port :: int
  Name :: string
  User :: string
  Password :: string

record DB =
  gorm :: "gormDB option"
  Addresses :: "gormDB option"

definition NewAddressesDB :: "gormDB option \<Rightarrow> gormDB option" where
  "NewAddressesDB db = db"

record ExponentialStrategy =
  Min :: int
  Max :: int
  MaxJitter :: int

definition dsn_of :: "DBConfig \<Rightarrow> string" where
  "dsn_of dbConfig =
     (let dsn = ''host='' @ Host dbConfig @ '' dbname='' @ Name dbConfig @ '' sslmode=disable'';
          dsn = (if Port dbConfig \<noteq> 0 then dsn @ '' port='' @ itoa (Port dbConfig) else dsn);
          dsn = (if User dbConfig \<noteq> [] then dsn @ '' user='' @ User dbConfig else dsn);
          dsn = (if Password dbConfig \<noteq> [] then dsn @ '' password='' @ Password dbConfig else dsn)
      in dsn)"

text \<open>
  \<^verbatim>\<open>NewDB\<close>. The method \<^verbatim>\<open>Duration\<close> of \<^verbatim>\<open>retry.ExponentialStrategy\<close> is declared in a file
  that is not among the sources, and \<^verbatim>\<open>gorm.Open\<close> belongs to the driver: both are
  parameters. \<open>gorm_Open dsn k\<close> is what the call \<^verbatim>\<open>gorm.Open(postgres.Open(dsn), &gormConfig)\<close>
  returns when \<open>k\<close> calls went before it. \<open>ctx\<close> is the caller's context.
\<close>

definition NewDB ::
  "Context \<Rightarrow> DBConfig \<Rightarrow> (ExponentialStrategy \<Rightarrow> Strategy)
     \<Rightarrow> (string \<Rightarrow> nat \<Rightarrow> gormDB option \<times> error option)
     \<Rightarrow> (DB option \<times> error option) \<times> effects" where
  "NewDB ctx dbConfig Duration gorm_Open =
     (let dsn = dsn_of dbConfig;
          retryStrategy = Duration \<lparr>Min = 1000, Max = 20000, MaxJitter = 250\<rparr>
      in case Do Background 10 retryStrategy
                (\<lambda>k. case gorm_Open dsn k of
                        (g, Some err) \<Rightarrow> (None, Some (ErrorfW ''failed to connect to database: %w'' err))
                      | (g, None) \<Rightarrow> (g, None))
                None of
           ((g, Some err), w) \<Rightarrow> ((None, Some err), w)
         | ((g, None), w) \<Rightarrow> ((Some \<lparr>gorm = g, Addresses = NewAddressesDB g\<rparr>, None), w))"

section \<open>Package database: ExecuteSQLMigration\<close>

text \<open>
  The file tree \<^verbatim>\<open>filepath.Walk\<close> walks: a regular file (or any entry that is no directory)
  with what \<^verbatim>\<open>os.ReadFile\<close> returns for it, or a directory with the error of reading its
  names, if any, and its entries in lexical order; an entry is \<open>Inl err\<close> when \<^verbatim>\<open>Lstat\<close>
  fails on it. \<^verbatim>\<open>Walk\<close> calls the function with \<^verbatim>\<open>(path, nil, err)\<close> after a failed
  \<^verbatim>\<open>Lstat\<close> and with \<^verbatim>\<open>(path, info, err)\<close> otherwise: \<open>walkArg\<close>.
\<close>

datatype fsnode =
    File "error + string"
  | Dir "error option" "(string \<times> (error + fsnode)) list"

datatype walkArg = LstatFailed error | Entry fsnode "error option"

fun IsDir :: "fsnode \<Rightarrow> bool" where
  "IsDir (Dir err names) = True"
| "IsDir (File c) = False"

text \<open>\<^verbatim>\<open>strings.HasPrefix\<close> and \<^verbatim>\<open>strings.Contains\<close>.\<close>

fun HasPrefix :: "string \<Rightarrow> string \<Rightarrow> bool" where
  "HasPrefix s [] = True"
| "HasPrefix [] (c # p) = False"
| "HasPrefix (x # s) (c # p) = (x = c \<and> HasPrefix s p)"

fun Contains :: "string \<Rightarrow> string \<Rightarrow> bool" where
  "Contains [] substr = (substr = [])"
| "Contains (x # s) substr = (HasPrefix (x # s) substr \<or> Contains s substr)"

text \<open>
  \<^verbatim>\<open>filepath.Join\<close> and \<^verbatim>\<open>filepath.Rel\<close> on the paths \<^verbatim>\<open>Walk\<close> builds from a clean root
  other than \<^verbatim>\<open>.\<close> and \<^verbatim>\<open>/\<close>: joining a directory's path and an entry's name, and the
  path of a target at or below the base. For a target elsewhere Go's \<^verbatim>\<open>Rel\<close> returns an
  error or a path that starts with a \<^verbatim>\<open>..\<close> element; the model returns the error.
\<close>

definition Join :: "string \<Rightarrow> string \<Rightarrow> string" where
  "Join path name = path @ ''/'' @ name"

definition Rel :: "string \<Rightarrow> string \<Rightarrow> error + string" where
  "Rel basepath targpath =
     (if targpath = basepath then Inr ''.''
      else if take (length basepath + 1) targpath = basepath @ ''/''
      then Inr (drop (length basepath + 1) targpath)
      else Inl (Failure ''Rel: can't make target relative to base''))"

text \<open>
  What the migration has done: the paths it has passed to \<^verbatim>\<open>os.ReadFile\<close> and the scripts
  it has passed to \<^verbatim>\<open>db.gorm.Exec\<close>, in order.
\<close>

record migration =
  reads :: "string list"
  executed :: "string list"

text \<open>
  The function \<^verbatim>\<open>ExecuteSQLMigration\<close> hands to \<^verbatim>\<open>filepath.Walk\<close>. \<open>Exec\<close> is the error, if
  any, of executing a script.
\<close>

definition migrate_file ::
  "(string \<Rightarrow> error option) \<Rightarrow> string \<Rightarrow> string \<Rightarrow> walkArg \<Rightarrow> migration
     \<Rightarrow> error option \<times> migration" where
  "migrate_file Exec migrationsFolder path arg s =
     (case arg of
        LstatFailed err \<Rightarrow> (Some (Wrap err (''Failed to process migration file: '' @ path)), s)
      | Entry info (Some err) \<Rightarrow>
          (Some (Wrap err (''Failed to process migration file: '' @ path)), s)
      | Entry info None \<Rightarrow>
          (case info of
             Dir derr names \<Rightarrow> (None, s)
           | File content \<Rightarrow>
               (case Rel migrationsFolder path of
                  Inl err \<Rightarrow> (Some (New ''invalid migration file path''), s)
                | Inr relativePath \<Rightarrow>
                    if Contains relativePath ''..''
                    then (Some (New ''invalid migration file path''), s)
                    else
                      (case content of
                         Inl readErr \<Rightarrow>
                           (Some (Wrap readErr (''Error reading SQL file: '' @ path)),
                            s\<lparr>reads := reads s @ [path]\<rparr>)
                       | Inr fileContent \<Rightarrow>
                           (case Exec fileContent of
                              Some execErr \<Rightarrow>
                                (Some (Wrap execErr (''Error executing SQL script: '' @ path)),
                                 s\<lparr>reads := reads s @ [path],
                                   executed := executed s @ [fileContent]\<rparr>)
                            | None \<Rightarrow>
                                (None, s\<lparr>reads := reads s @ [path],
                                         executed := executed s @ [fileContent]\<rparr>))))))"

text \<open>
  \<^verbatim>\<open>filepath.Walk\<close> and its helper \<^verbatim>\<open>walk\<close>, after the library's code: the function is
  called for a directory before its entries; a non-nil result stops the walk, but for
  \<^verbatim>\<open>SkipDir\<close> returned for a directory (the rest of that directory is skipped) and
  \<^verbatim>\<open>SkipDir\<close> or \<^verbatim>\<open>SkipAll\<close> reaching \<^verbatim>\<open>Walk\<close> (the result is \<^verbatim>\<open>nil\<close>).
\<close>

function (sequential) walk ::
    "(string \<Rightarrow> walkArg \<Rightarrow> 's \<Rightarrow> error option \<times> 's) \<Rightarrow> string \<Rightarrow> fsnode \<Rightarrow> 's
       \<Rightarrow> error option \<times> 's"
  and walk_names ::
    "(string \<Rightarrow> walkArg \<Rightarrow> 's \<Rightarrow> error option \<times> 's) \<Rightarrow> string
       \<Rightarrow> (string \<times> (error + fsnode)) list \<Rightarrow> 's \<Rightarrow> error option \<times> 's" where
  "walk walkFn path (File c) s = walkFn path (Entry (File c) None) s"
| "walk walkFn path (Dir err names) s =
     (case walkFn path (Entry (Dir err names) err) s of
        (err1, s1) \<Rightarrow>
          if err \<noteq> None \<or> err1 \<noteq> None then (err1, s1)
          else walk_names walkFn path names s1)"
| "walk_names walkFn path [] s = (None, s)"
| "walk_names walkFn path ((name, Inl lerr) # rest) s =
     (case walkFn (Join path name) (LstatFailed lerr) s of
        (err, s1) \<Rightarrow>
          if err \<noteq> None \<and> err \<noteq> Some SkipDir then (err, s1)
          else walk_names walkFn path rest s1)"
| "walk_names walkFn path ((name, Inr fileInfo) # rest) s =
     (case walk walkFn (Join path name) fileInfo s of
        (err, s1) \<Rightarrow>
          if err \<noteq> None \<and> (\<not> IsDir fileInfo \<or> err \<noteq> Some SkipDir) then (err, s1)
          else walk_names walkFn path rest s1)"
  by pat_completeness auto
termination
  by (relation "measure (case_sum (\<lambda>(walkFn, path, info, s). size info)
        (\<lambda>(walkFn, path, names, s).
           size_list (size_prod (\<lambda>x. 0) (size_sum (\<lambda>x. 0) size)) names))")
     auto

definition Walk ::
  "(string \<Rightarrow> walkArg \<Rightarrow> 's \<Rightarrow> error option \<times> 's) \<Rightarrow> string \<Rightarrow> error + fsnode \<Rightarrow> 's
     \<Rightarrow> error option \<times> 's" where
  "Walk fn root rootInfo s =
     (case (case rootInfo of
              Inl lerr \<Rightarrow> fn root (LstatFailed lerr) s
            | Inr info \<Rightarrow> walk fn root info s) of
        (err, s1) \<Rightarrow>
          if err = Some SkipDir \<or> err = Some SkipAll then (None, s1) else (err, s1))"

definition ExecuteSQLMigration ::
  "(string \<Rightarrow> error option) \<Rightarrow> string \<Rightarrow> error + fsnode \<Rightarrow> error option \<times> migration" where
  "ExecuteSQLMigration Exec migrationsFolder rootInfo =
     Walk (migrate_file Exec migrationsFolder) migrationsFolder rootInfo
       \<lparr>reads = [], executed = []\<rparr>"

section \<open>Concrete values\<close>

text \<open>
  \<^verbatim>\<open>common.Address\<close> of go-ethereum, a \<^verbatim>\<open>[20]byte\<close>: \<^verbatim>\<open>Bytes\<close> has a value receiver and
  returns the 20 bytes; \<^verbatim>\<open>SetBytes\<close> has a pointer receiver, keeps the last 20 bytes of a
  longer argument and copies a shorter one to the right end of the array.
\<close>

definition Address_SetBytes :: "byte list \<Rightarrow> byte list \<Rightarrow> byte list" where
  "Address_SetBytes b a =
     (let b = (if length b > length a then drop (length b - 20) b else b)
      in take (20 - length b) a @ b)"

definition common_Address :: "byte list typeinfo" where
  "common_Address =
     \<lparr>zeroValue = replicate 20 0,
      BytesRecv = Some ValueRecv,
      BytesFn = (\<lambda>a. a),
      SetBytesRecv = Some PtrRecv,
      SetBytesFn = Address_SetBytes\<rparr>"

definition go_ethereum :: "byte list tyenv" where
  "go_ethereum = (\<lambda>n. common_Address)"

text \<open>
  The address \<^verbatim>\<open>0x0fa09C3A328792253f8dee7116848723b72a6d2e\<close> that \<^verbatim>\<open>Web3Scanner.Start\<close>
  stores, a row of the table, and a migrations folder with three files.
\<close>

definition scanner_address :: "byte list" where
  "scanner_address = [15, 160, 156, 58, 50, 135, 146, 37, 63, 141,
                      238, 113, 22, 132, 135, 35, 183, 42, 109, 46]"

definition address_row :: "string \<Rightarrow> byte list \<Rightarrow> byte \<Rightarrow> Addresses" where
  "address_row guid a t =
     \<lparr>GUID = guid, Address = a, AddressType = t, PublicKey = [], Timestamp = 1\<rparr>"

definition migrations_dir :: "error + fsnode" where
  "migrations_dir =
     Inr (Dir None
       [(''001_init.sql'', Inr (File (Inr ''CREATE TABLE a ();''))),
        (''002_v1..2.sql'', Inr (File (Inr ''CREATE TABLE b ();''))),
        (''003_last.sql'', Inr (File (Inr ''CREATE TABLE c ();'')))])"

section \<open>Properties of the retry executor\<close>

lemma trail_0: "trail strategy 0 = no_effects"
  by (simp add: trail_def no_effects_def)

lemma trail_Suc:
  "trail strategy (Suc k) =
     (trail strategy k)\<lparr>invoked := invoked (trail strategy k) + 1,
                        slept := slept (trail strategy k) @ [strategy (int k)]\<rparr>"
  by (simp add: trail_def)

lemma Do_loop_fail_step:
  assumes "i + 1 < maxAttempts" and "ctx w = None" and "op (invoked w) = (ret, Some e)"
  shows "Do_loop ctx maxAttempts strategy op emptyT i err w =
         Do_loop ctx maxAttempts strategy op emptyT (i + 1) (Some e)
           (w\<lparr>invoked := invoked w + 1, slept := slept w @ [strategy i]\<rparr>)"
  using assms by (subst Do_loop.simps) simp

lemma Do_loop_fail_last:
  assumes "i + 1 = maxAttempts" and "ctx w = None" and "op (invoked w) = (ret, Some e)"
  shows "Do_loop ctx maxAttempts strategy op emptyT i err w =
         ((emptyT, Some (ErrFailedPermanently maxAttempts (Some e))), w\<lparr>invoked := invoked w + 1\<rparr>)"
proof -
  have "Do_loop ctx maxAttempts strategy op emptyT i err w =
        Do_loop ctx maxAttempts strategy op emptyT (i + 1) (Some e) (w\<lparr>invoked := invoked w + 1\<rparr>)"
    using assms by (subst Do_loop.simps) auto
  also have "\<dots> = ((emptyT, Some (ErrFailedPermanently maxAttempts (Some e))), w\<lparr>invoked := invoked w + 1\<rparr>)"
    using assms by (subst Do_loop.simps) simp
  finally show ?thesis .
qed

lemma Do_loop_success:
  assumes "i < maxAttempts" and "ctx w = None" and "op (invoked w) = (ret, None)"
  shows "Do_loop ctx maxAttempts strategy op emptyT i err w =
         ((ret, None), w\<lparr>invoked := invoked w + 1\<rparr>)"
  using assms by (subst Do_loop.simps) simp

lemma Do_loop_cancelled:
  assumes "i < maxAttempts" and "ctx w = Some cerr"
  shows "Do_loop ctx maxAttempts strategy op emptyT i err w = ((emptyT, Some cerr), w)"
  using assms by (subst Do_loop.simps) simp

text \<open>After k failed attempts that are not the last, the loop stands at index k.\<close>

lemma Do_loop_failed_prefix:
  assumes "int k < maxAttempts"
    and "\<forall>j<k. ctx (trail strategy j) = None \<and> snd (op j) \<noteq> None"
  shows "\<exists>err. Do_loop ctx maxAttempts strategy op emptyT 0 None no_effects =
           Do_loop ctx maxAttempts strategy op emptyT (int k) err (trail strategy k)
           \<and> (0 < k \<longrightarrow> err = snd (op (k - 1)))"
  using assms
proof (induction k)
  case 0
  then show ?case by (auto simp: trail_0)
next
  case (Suc k)
  then obtain err where
    prev: "Do_loop ctx maxAttempts strategy op emptyT 0 None no_effects =
           Do_loop ctx maxAttempts strategy op emptyT (int k) err (trail strategy k)"
    by auto
  from Suc.prems have c: "ctx (trail strategy k) = None" and f: "snd (op k) \<noteq> None"
    by auto
  then obtain ret e where o: "op (invoked (trail strategy k)) = (ret, Some e)"
    by (cases "op k") (auto simp: trail_def)
  have "Do_loop ctx maxAttempts strategy op emptyT (int k) err (trail strategy k) =
        Do_loop ctx maxAttempts strategy op emptyT (int k + 1) (Some e) (trail strategy (Suc k))"
    using Suc.prems(1) c o by (subst Do_loop_fail_step [where ret = ret and e = e]) (auto simp: trail_Suc)
  moreover have "snd (op k) = Some e" using o by (simp add: trail_def)
  ultimately show ?case using prev
    by (auto simp: add.commute)
qed


lemma Do_success_effects:
  assumes "int k < maxAttempts"
    and "\<forall>j<k. snd (op j) \<noteq> None" and "op k = (v, None)"
    and "\<forall>j\<le>k. ctx (trail strategy j) = None"
  shows "Do ctx maxAttempts strategy op emptyT =
           ((v, None), \<lparr>invoked = k + 1, slept = map (\<lambda>j. strategy (int j)) [0..<k]\<rparr>)"
proof -
  from assms obtain err where
    "Do_loop ctx maxAttempts strategy op emptyT 0 None no_effects =
     Do_loop ctx maxAttempts strategy op emptyT (int k) err (trail strategy k)"
    using Do_loop_failed_prefix [of k maxAttempts ctx strategy op emptyT] by auto
  moreover have "Do_loop ctx maxAttempts strategy op emptyT (int k) err (trail strategy k) =
     ((v, None), (trail strategy k)\<lparr>invoked := invoked (trail strategy k) + 1\<rparr>)"
    using assms by (intro Do_loop_success) (auto simp: trail_def)
  ultimately show ?thesis using assms(1)
    by (simp add: Do_def trail_def)
qed

lemma Do_exhausted_effects:
  assumes "1 \<le> maxAttempts"
    and "\<forall>j<nat maxAttempts. snd (op j) \<noteq> None"
    and "\<forall>j<nat maxAttempts. ctx (trail strategy j) = None"
  shows "\<exists>lastErr. snd (op (nat maxAttempts - 1)) = Some lastErr
           \<and> Do ctx maxAttempts strategy op emptyT =
               ((emptyT, Some (ErrFailedPermanently maxAttempts (Some lastErr))),
                \<lparr>invoked = nat maxAttempts,
                 slept = map (\<lambda>j. strategy (int j)) [0..<nat maxAttempts - 1]\<rparr>)"
proof -
  define k where "k = nat maxAttempts - 1"
  have k: "int k + 1 = maxAttempts" "k < nat maxAttempts" using assms(1) by (auto simp: k_def)
  from assms k obtain err where
    pre: "Do_loop ctx maxAttempts strategy op emptyT 0 None no_effects =
     Do_loop ctx maxAttempts strategy op emptyT (int k) err (trail strategy k)"
    using Do_loop_failed_prefix [of k maxAttempts ctx strategy op emptyT] by auto
  from assms k obtain ret e where o: "op k = (ret, Some e)"
    by (cases "op k") auto
  have "Do_loop ctx maxAttempts strategy op emptyT (int k) err (trail strategy k) =
     ((emptyT, Some (ErrFailedPermanently maxAttempts (Some e))),
      (trail strategy k)\<lparr>invoked := invoked (trail strategy k) + 1\<rparr>)"
    using assms k o by (intro Do_loop_fail_last [where ret = ret]) (auto simp: trail_def)
  with pre have "Do ctx maxAttempts strategy op emptyT =
               ((emptyT, Some (ErrFailedPermanently maxAttempts (Some e))),
                \<lparr>invoked = nat maxAttempts,
                 slept = map (\<lambda>j. strategy (int j)) [0..<nat maxAttempts - 1]\<rparr>)"
    using assms(1) by (simp add: Do_def trail_def k_def)
  then show ?thesis using o by (auto simp: k_def)
qed

lemma Do_cancelled_effects:
  assumes "int k < maxAttempts"
    and "\<forall>j<k. ctx (trail strategy j) = None \<and> snd (op j) \<noteq> None"
    and "ctx (trail strategy k) = Some cerr"
  shows "Do ctx maxAttempts strategy op emptyT =
           ((emptyT, Some cerr), \<lparr>invoked = k, slept = map (\<lambda>j. strategy (int j)) [0..<k]\<rparr>)"
proof -
  from assms obtain err where
    "Do_loop ctx maxAttempts strategy op emptyT 0 None no_effects =
     Do_loop ctx maxAttempts strategy op emptyT (int k) err (trail strategy k)"
    using Do_loop_failed_prefix [of k maxAttempts ctx strategy op emptyT] by auto
  moreover have "Do_loop ctx maxAttempts strategy op emptyT (int k) err (trail strategy k) =
     ((emptyT, Some cerr), trail strategy k)"
    using assms by (intro Do_loop_cancelled) auto
  ultimately show ?thesis using assms(1)
    by (simp add: Do_def trail_def)
qed

lemma Do_loop_live_error:
  assumes "\<forall>w. ctx w = None"
    and "snd (fst (Do_loop ctx maxAttempts strategy op emptyT i err w)) = Some e"
  shows "\<exists>lastErr. e = ErrFailedPermanently maxAttempts lastErr"
  using assms
proof (induction ctx maxAttempts strategy op emptyT i err w rule: Do_loop.induct)
  case (1 ctx maxAttempts strategy op emptyT i err w)
  have live: "ctx w = None" using "1.prems"(1) by simp
  show ?case
  proof (cases "i < maxAttempts")
    case False
    with "1.prems"(2) show ?thesis by (subst (asm) Do_loop.simps) auto
  next
    case True
    obtain ret r where o: "op (invoked w) = (ret, r)" by (cases "op (invoked w)")
    show ?thesis
    proof (cases r)
      case None
      with True o live "1.prems"(2) show ?thesis
        by (subst (asm) Do_loop.simps) simp
    next
      case (Some e')
      from "1.prems"(2) True o Some live
      have "snd (fst (Do_loop ctx maxAttempts strategy op emptyT (i + 1) (Some e')
              (if i \<noteq> maxAttempts - 1
               then w\<lparr>invoked := invoked w + 1, slept := slept w @ [strategy i]\<rparr>
               else w\<lparr>invoked := invoked w + 1\<rparr>))) = Some e"
        by (subst (asm) Do_loop.simps) simp
      with "1.IH" [OF True live o [symmetric] Some "1.prems"(1)] show ?thesis by simp
    qed
  qed
qed

text \<open>
  Claim C1. Let \<open>1 \<le> maxAttempts\<close>, let the operation fail on its first \<open>k\<close> invocations,
  \<open>k < maxAttempts\<close>, and succeed with \<open>v\<close> on invocation \<open>k + 1\<close>, and let the context be
  live (\<^verbatim>\<open>ctx.Err() == nil\<close>) each time \<^verbatim>\<open>Do\<close> checks it before these \<open>k + 1\<close> attempts.
  Then, for every strategy, \<^verbatim>\<open>Do\<close> returns \<open>v\<close> with a nil error, has invoked the operation
  exactly \<open>k + 1\<close> times and has slept exactly \<open>k\<close> times, once after each failed attempt
  \<open>j\<close>, for \<open>strategy j\<close>.
\<close>

theorem Do_succeeds_after_failures:
  assumes "1 \<le> maxAttempts" and "int k < maxAttempts"
    and "\<forall>j<k. snd (op j) \<noteq> None" and "op k = (v, None)"
    and "\<forall>j\<le>k. ctx (trail strategy j) = None"
  shows "fst (Do ctx maxAttempts strategy op emptyT) = (v, None)
         \<and> invoked (snd (Do ctx maxAttempts strategy op emptyT)) = k + 1
         \<and> length (slept (snd (Do ctx maxAttempts strategy op emptyT))) = k
         \<and> slept (snd (Do ctx maxAttempts strategy op emptyT)) = map (\<lambda>j. strategy (int j)) [0..<k]"
  using Do_success_effects [OF assms(2-5)] by simp

theorem Do_succeeds_after_failures_witness:
  "Do Background 3 (\<lambda>i. 1000 * (i + 1))
      (\<lambda>j. if j < 2 then (0, Some (Failure ''connection refused'')) else (42 :: int, None)) 0
   = ((42, None), \<lparr>invoked = 3, slept = [1000, 2000]\<rparr>)"
proof -
  let ?op = "\<lambda>j :: nat. if j < 2 then (0, Some (Failure ''connection refused'')) else (42 :: int, None)"
  let ?D = "Do Background 3 (\<lambda>i. 1000 * (i + 1)) ?op 0"
  have "fst ?D = (42, None) \<and> invoked (snd ?D) = 2 + 1 \<and> length (slept (snd ?D)) = 2
        \<and> slept (snd ?D) = map (\<lambda>j. 1000 * (int j + 1)) [0..<2]"
    by (rule Do_succeeds_after_failures) (simp_all add: Background_def)
  then show ?thesis
    by (cases ?D) (auto simp: upt_rec [of 0] upt_rec [of 1] upt_rec[of "Suc 0"])
qed

text \<open>
  Claim C4. Let \<open>1 \<le> maxAttempts\<close>, let the operation fail on all \<open>maxAttempts\<close>
  invocations, and let the context be live each time \<^verbatim>\<open>Do\<close> checks it. Then \<^verbatim>\<open>Do\<close> returns
  the zero value and an \<^verbatim>\<open>ErrFailedPermanently\<close> whose \<^verbatim>\<open>attempts\<close> is \<open>maxAttempts\<close> and
  whose \<^verbatim>\<open>LastErr\<close> is the error of the last invocation; \<^verbatim>\<open>Unwrap\<close> returns that error, and
  \<^verbatim>\<open>errors.Is\<close> finds it on the chain.
\<close>

theorem Do_fails_permanently:
  assumes "1 \<le> maxAttempts"
    and "\<forall>j<nat maxAttempts. snd (op j) \<noteq> None"
    and "\<forall>j<nat maxAttempts. ctx (trail strategy j) = None"
  shows "\<exists>lastErr. snd (op (nat maxAttempts - 1)) = Some lastErr
           \<and> fst (Do ctx maxAttempts strategy op emptyT) =
               (emptyT, Some (ErrFailedPermanently maxAttempts (Some lastErr)))
           \<and> invoked (snd (Do ctx maxAttempts strategy op emptyT)) = nat maxAttempts
           \<and> attempts (ErrFailedPermanently maxAttempts (Some lastErr)) = maxAttempts
           \<and> Unwrap (ErrFailedPermanently maxAttempts (Some lastErr)) = Some lastErr
           \<and> errors_Is (ErrFailedPermanently maxAttempts (Some lastErr)) lastErr"
proof -
  from Do_exhausted_effects [OF assms, of emptyT] obtain lastErr where
    l: "snd (op (nat maxAttempts - 1)) = Some lastErr"
       "Do ctx maxAttempts strategy op emptyT =
               ((emptyT, Some (ErrFailedPermanently maxAttempts (Some lastErr))),
                \<lparr>invoked = nat maxAttempts,
                 slept = map (\<lambda>j. strategy (int j)) [0..<nat maxAttempts - 1]\<rparr>)"
    by blast
  moreover have "errors_Is (ErrFailedPermanently maxAttempts (Some lastErr)) lastErr"
    by (cases lastErr) auto
  ultimately show ?thesis by auto
qed

theorem Do_fails_permanently_witness:
  "fst (Do Background 3 (\<lambda>i. 1000)
          (\<lambda>j. (0 :: int, Some (Failure (if j = 2 then ''third'' else ''earlier'')))) 0)
     = (0, Some (ErrFailedPermanently 3 (Some (Failure ''third''))))
   \<and> Unwrap (ErrFailedPermanently 3 (Some (Failure ''third''))) = Some (Failure ''third'')"
  using Do_fails_permanently [of 3
      "\<lambda>j. (0 :: int, Some (Failure (if j = 2 then ''third'' else ''earlier'')))"
      Background "\<lambda>i. 1000" 0]
  by (simp add: Background_def)

text \<open>
  Claim C5. For \<open>maxAttempts < 1\<close> (zero or negative), \<^verbatim>\<open>Do\<close> and \<^verbatim>\<open>Do2\<close> return the zero
  value(s) and the configuration error \<^verbatim>\<open>need at least 1 attempt to run op, ...\<close> carrying
  \<open>maxAttempts\<close>, with the operation invoked zero times and zero sleeps, whatever the
  context and the strategy.
\<close>

theorem Do_rejects_maxAttempts_below_1:
  assumes "maxAttempts < 1"
  shows "Do ctx maxAttempts strategy op emptyT =
           ((emptyT, Some (ErrorfD ''need at least 1 attempt to run op, but have %d max attempts''
                             maxAttempts)),
            \<lparr>invoked = 0, slept = []\<rparr>)
         \<and> Do2 ctx maxAttempts strategy op2 emptyA emptyB =
           ((emptyA, emptyB,
             Some (ErrorfD ''need at least 1 attempt to run op, but have %d max attempts''
                     maxAttempts)),
            \<lparr>invoked = 0, slept = []\<rparr>)"
  using assms by (simp add: Do_def Do2_def no_effects_def)

theorem Do_rejects_maxAttempts_below_1_witness:
  "Do Background (- 3) (\<lambda>i. 1000) (\<lambda>j. (7 :: int, None)) 0 =
     ((0, Some (ErrorfD ''need at least 1 attempt to run op, but have %d max attempts'' (- 3))),
      \<lparr>invoked = 0, slept = []\<rparr>)
   \<and> Do2 Background (- 3) (\<lambda>i. 1000) (\<lambda>j. (7 :: int, True, None)) 0 False =
     ((0, False, Some (ErrorfD ''need at least 1 attempt to run op, but have %d max attempts'' (- 3))),
      \<lparr>invoked = 0, slept = []\<rparr>)"
  by (rule Do_rejects_maxAttempts_below_1) simp

text \<open>
  Claim C6. Let \<open>1 \<le> maxAttempts\<close>. If the context is already cancelled when \<^verbatim>\<open>Do\<close> is
  called, \<^verbatim>\<open>Do\<close> returns the context's error with no invocation of the operation and no
  sleep. More generally the check stands before every attempt: if the first \<open>k\<close> attempts
  fail under a live context and the context is cancelled when attempt \<open>k + 1\<close> is due,
  \<^verbatim>\<open>Do\<close> returns the context's error after exactly \<open>k\<close> invocations and \<open>k\<close> sleeps; the
  attempt that was due is not made.
\<close>

theorem Do_stops_on_cancelled_context:
  assumes "1 \<le> maxAttempts"
  shows "(ctx no_effects = Some cerr \<longrightarrow>
            Do ctx maxAttempts strategy op emptyT = ((emptyT, Some cerr), \<lparr>invoked = 0, slept = []\<rparr>))
         \<and> (int k < maxAttempts
              \<and> (\<forall>j<k. ctx (trail strategy j) = None \<and> snd (op j) \<noteq> None)
              \<and> ctx (trail strategy k) = Some cerr' \<longrightarrow>
            Do ctx maxAttempts strategy op emptyT =
              ((emptyT, Some cerr'), \<lparr>invoked = k, slept = map (\<lambda>j. strategy (int j)) [0..<k]\<rparr>))"
proof (intro conjI impI)
  assume "ctx no_effects = Some cerr"
  then show "Do ctx maxAttempts strategy op emptyT = ((emptyT, Some cerr), \<lparr>invoked = 0, slept = []\<rparr>)"
    using assms Do_cancelled_effects [of 0 maxAttempts ctx strategy op cerr emptyT]
    by (simp add: trail_0)
next
  assume "int k < maxAttempts
              \<and> (\<forall>j<k. ctx (trail strategy j) = None \<and> snd (op j) \<noteq> None)
              \<and> ctx (trail strategy k) = Some cerr'"
  then show "Do ctx maxAttempts strategy op emptyT =
              ((emptyT, Some cerr'), \<lparr>invoked = k, slept = map (\<lambda>j. strategy (int j)) [0..<k]\<rparr>)"
    using Do_cancelled_effects [of k maxAttempts ctx strategy op cerr' emptyT] by blast
qed

theorem Do_stops_on_cancelled_context_witness:
  "Do (\<lambda>w. Some Canceled) 5 (\<lambda>i. 1000) (\<lambda>j. (7 :: int, None)) 0 =
     ((0, Some Canceled), \<lparr>invoked = 0, slept = []\<rparr>)
   \<and> Do (\<lambda>w. if 2 \<le> invoked w then Some DeadlineExceeded else None) 5 (\<lambda>i. 1000 + i)
       (\<lambda>j. (7 :: int, Some (Failure ''connection refused''))) 0 =
     ((0, Some DeadlineExceeded), \<lparr>invoked = 2, slept = [1000, 1001]\<rparr>)"
proof -
  have a: "Do (\<lambda>w. Some Canceled) 5 (\<lambda>i. 1000) (\<lambda>j. (7 :: int, None)) 0 =
     ((0, Some Canceled), \<lparr>invoked = 0, slept = []\<rparr>)"
    using Do_stops_on_cancelled_context [of 5 "\<lambda>w. Some Canceled" Canceled "\<lambda>i. 1000"
        "\<lambda>j. (7 :: int, None)" 0 0 Canceled]
    by simp
  have b: "Do (\<lambda>w. if 2 \<le> invoked w then Some DeadlineExceeded else None) 5 (\<lambda>i. 1000 + i)
       (\<lambda>j. (7 :: int, Some (Failure ''connection refused''))) 0 =
     ((0, Some DeadlineExceeded), \<lparr>invoked = 2, slept = map (\<lambda>j. 1000 + int j) [0..<2]\<rparr>)"
    using Do_stops_on_cancelled_context [of 5
        "\<lambda>w. if 2 \<le> invoked w then Some DeadlineExceeded else None" Canceled "\<lambda>i. 1000 + i"
        "\<lambda>j. (7 :: int, Some (Failure ''connection refused''))" 0 2 DeadlineExceeded]
    by (simp add: trail_def)
  show ?thesis using a b by (simp add: upt_rec [of 0] upt_rec [of 1] upt_rec[of "Suc 0"])
qed


lemma NewDB_error_shape:
  assumes "snd (fst (NewDB ctx dbConfig Duration gorm_Open)) = Some err"
  shows "\<exists>lastErr. err = ErrFailedPermanently 10 lastErr"
proof -
  let ?connect = "\<lambda>k. case gorm_Open (dsn_of dbConfig) k of
                        (g, Some err) \<Rightarrow> (None, Some (ErrorfW ''failed to connect to database: %w'' err))
                      | (g, None) \<Rightarrow> (g, None)"
  let ?S = "Duration \<lparr>Min = 1000, Max = 20000, MaxJitter = 250\<rparr>"
  obtain g e w where d: "Do Background 10 ?S ?connect None = ((g, e), w)"
    by (cases "Do Background 10 ?S ?connect None") auto
  with assms have "e = Some err"
    by (cases e) (simp_all add: NewDB_def)
  with d have "snd (fst (Do_loop Background 10 ?S ?connect None 0 None no_effects)) = Some err"
    by (simp add: Do_def)
  then show ?thesis
    by (rule Do_loop_live_error [rotated]) (simp add: Background_def)
qed

lemma NewDB_exhausted:
  assumes "\<forall>k<10. snd (gorm_Open (dsn_of dbConfig) k) \<noteq> None"
  shows "\<exists>e. snd (gorm_Open (dsn_of dbConfig) 9) = Some e
           \<and> NewDB ctx dbConfig Duration gorm_Open =
               ((None, Some (ErrFailedPermanently 10
                   (Some (ErrorfW ''failed to connect to database: %w'' e)))),
                \<lparr>invoked = 10,
                 slept = map (\<lambda>j. Duration \<lparr>Min = 1000, Max = 20000, MaxJitter = 250\<rparr> (int j))
                           [0..<9]\<rparr>)"
proof -
  let ?connect = "\<lambda>k. case gorm_Open (dsn_of dbConfig) k of
                        (g, Some err) \<Rightarrow> (None, Some (ErrorfW ''failed to connect to database: %w'' err))
                      | (g, None) \<Rightarrow> (g, None)"
  let ?S = "Duration \<lparr>Min = 1000, Max = 20000, MaxJitter = 250\<rparr>"
  have f: "\<forall>j<nat 10. snd (?connect j) \<noteq> None"
    using assms by (auto split: prod.splits option.splits)
  have "\<exists>lastErr. snd (?connect (nat 10 - 1)) = Some lastErr
           \<and> Do Background 10 ?S ?connect None =
               ((None, Some (ErrFailedPermanently 10 (Some lastErr))),
                \<lparr>invoked = nat 10, slept = map (\<lambda>j. ?S (int j)) [0..<nat 10 - 1]\<rparr>)"
    by (rule Do_exhausted_effects [OF _ f]) (simp_all add: Background_def)
  then obtain lastErr where
    l: "snd (?connect 9) = Some lastErr"
    and d: "Do Background 10 ?S ?connect None =
               ((None, Some (ErrFailedPermanently 10 (Some lastErr))),
                \<lparr>invoked = 10, slept = map (\<lambda>j. ?S (int j)) [0..<9]\<rparr>)"
    by auto
  from assms have "snd (gorm_Open (dsn_of dbConfig) 9) \<noteq> None" by simp
  then obtain g e where o: "gorm_Open (dsn_of dbConfig) 9 = (g, Some e)"
    by (cases "gorm_Open (dsn_of dbConfig) 9") auto
  with l have "lastErr = ErrorfW ''failed to connect to database: %w'' e" by simp
  with d o show ?thesis by (simp add: NewDB_def)
qed

text \<open>
  Claim C10. \<^verbatim>\<open>NewDB\<close> runs the retry loop under \<^verbatim>\<open>context.Background()\<close>, not under the
  caller's context: its result is the same for every caller context, also one that is
  cancelled before the call; an error it returns is an \<^verbatim>\<open>ErrFailedPermanently\<close> of 10
  attempts, never the context's cancellation error; and when every connection attempt
  fails, all 10 attempts are made, with 9 sleeps between them.
\<close>

theorem NewDB_retries_under_background_context:
  "NewDB ctx dbConfig Duration gorm_Open = NewDB Background dbConfig Duration gorm_Open
   \<and> (\<forall>err. snd (fst (NewDB ctx dbConfig Duration gorm_Open)) = Some err \<longrightarrow>
         (\<exists>lastErr. err = ErrFailedPermanently 10 lastErr) \<and> err \<noteq> Canceled \<and> err \<noteq> DeadlineExceeded)
   \<and> ((\<forall>k<10. snd (gorm_Open (dsn_of dbConfig) k) \<noteq> None) \<longrightarrow>
         invoked (snd (NewDB ctx dbConfig Duration gorm_Open)) = 10
         \<and> length (slept (snd (NewDB ctx dbConfig Duration gorm_Open))) = 9
         \<and> (\<exists>e. snd (gorm_Open (dsn_of dbConfig) 9) = Some e
              \<and> fst (NewDB ctx dbConfig Duration gorm_Open) =
                  (None, Some (ErrFailedPermanently 10
                     (Some (ErrorfW ''failed to connect to database: %w'' e))))))"
proof (intro conjI allI impI)
  show "NewDB ctx dbConfig Duration gorm_Open = NewDB Background dbConfig Duration gorm_Open"
    by (simp add: NewDB_def)
next
  fix err assume "snd (fst (NewDB ctx dbConfig Duration gorm_Open)) = Some err"
  from NewDB_error_shape [OF this]
  show "\<exists>lastErr. err = ErrFailedPermanently 10 lastErr" "err \<noteq> Canceled" "err \<noteq> DeadlineExceeded"
    by auto
next
  assume a: "\<forall>k<10. snd (gorm_Open (dsn_of dbConfig) k) \<noteq> None"
  from a NewDB_exhausted [of gorm_Open dbConfig ctx Duration]
  show "invoked (snd (NewDB ctx dbConfig Duration gorm_Open)) = 10"
    "length (slept (snd (NewDB ctx dbConfig Duration gorm_Open))) = 9"
    "\<exists>e. snd (gorm_Open (dsn_of dbConfig) 9) = Some e
              \<and> fst (NewDB ctx dbConfig Duration gorm_Open) =
                  (None, Some (ErrFailedPermanently 10
                     (Some (ErrorfW ''failed to connect to database: %w'' e))))"
    by auto
qed

theorem NewDB_retries_under_background_context_witness:
  "invoked (snd (NewDB (\<lambda>w. Some Canceled)
       \<lparr>Host = ''db'', Port = 5432, Name = ''scanner'', User = [], Password = []\<rparr>
       (\<lambda>s i. 1000) (\<lambda>dsn k. (None, Some (Failure ''connection refused''))))) = 10
   \<and> fst (NewDB (\<lambda>w. Some Canceled)
       \<lparr>Host = ''db'', Port = 5432, Name = ''scanner'', User = [], Password = []\<rparr>
       (\<lambda>s i. 1000) (\<lambda>dsn k. (None, Some (Failure ''connection refused'')))) =
     (None, Some (ErrFailedPermanently 10
        (Some (ErrorfW ''failed to connect to database: %w'' (Failure ''connection refused'')))))"
  using NewDB_retries_under_background_context [of "\<lambda>w. Some Canceled"
       "\<lparr>Host = ''db'', Port = 5432, Name = ''scanner'', User = [], Password = []\<rparr>"
       "\<lambda>s i. 1000" "\<lambda>dsn k. (None, Some (Failure ''connection refused''))",
       THEN conjunct2, THEN conjunct2]
  by simp

section \<open>Properties of the codec\<close>

lemma nibble_cases:
  "n < (16 :: nat) \<Longrightarrow> n \<in> {0, 1, 2, 3, 4, 5, 6, 7, 8, 9, 10, 11, 12, 13, 14, 15}"
  by (simp; arith)

lemma reverseHexTable_hextable:
  "n < 16 \<Longrightarrow> reverseHexTable (hextable ! n) = of_nat n \<and> \<not> reverseHexTable (hextable ! n) > 15"
  by (drule nibble_cases) (auto simp: hextable_def reverseHexTable_def)

lemma high_nibble_less: "unat (drop_bit 4 (v :: byte)) < 16"
proof -
  have "unat v < 2 ^ 8" using unsigned_less [of v] by simp
  moreover have "unat (drop_bit 4 v) = drop_bit 4 (unat v)" by (rule unat_drop_bit_eq)
  moreover have "drop_bit 4 (unat v) = unat v div 2 ^ 4" by (rule drop_bit_eq_div)
  ultimately show ?thesis by simp
qed

lemma low_nibble_less: "unat ((v :: byte) AND 15) < 16"
proof -
  have m: "(15 :: byte) = mask 4" by (simp add: mask_eq_exp_minus_1)
  have "unat (v AND mask 4) = unat (take_bit 4 v)"
    by (simp only: take_bit_eq_mask)
  also have "\<dots> = take_bit 4 (unat v)"
    by (simp only: unsigned_take_bit_eq)
  also have "\<dots> < 2 ^ 4" by (rule take_bit_nat_less_exp)
  finally show ?thesis by (simp add: m)
qed

lemma nibbles_recombine: "push_bit 4 (drop_bit 4 v) OR (v AND 15) = (v :: byte)"
proof -
  have m: "(15 :: byte) = mask 4" by (simp add: mask_eq_exp_minus_1)
  show ?thesis
    unfolding m by (rule bit_word_eqI) (auto simp: bit_simps)
qed

lemma hex_DecodeString_EncodeToString: "hex_DecodeString (hex_EncodeToString b) = Inr b"
proof (induction b)
  case Nil
  then show ?case by simp
next
  case (Cons v b)
  note hi = reverseHexTable_hextable [OF high_nibble_less [of v]]
  note lo = reverseHexTable_hextable [OF low_nibble_less [of v]]
  have h: "reverseHexTable (hextable ! unat (drop_bit 4 v)) = drop_bit 4 v"
    using hi [THEN conjunct1] by simp
  have l: "reverseHexTable (hextable ! unat (v AND 15)) = v AND 15"
    using lo [THEN conjunct1] by simp
  have "hex_DecodeString (hex_EncodeToString (v # b)) =
        Inr ((push_bit 4 (reverseHexTable (hextable ! unat (drop_bit 4 v)))
              OR reverseHexTable (hextable ! unat (v AND 15))) # b)"
    using Cons.IH hi [THEN conjunct2] lo [THEN conjunct2] by simp
  then show ?case by (simp only: h l nibbles_recombine)
qed

lemma hexutil_Decode_Encode: "hexutil_Decode (hexutil_Encode b) = Inr b"
  by (simp add: hexutil_Decode_def hexutil_Encode_def has0xPrefix_def
      hex_DecodeString_EncodeToString)

lemma TypeOf_Zero: "TypeOf (Zero env t) = t"
  by (cases t) simp_all

lemma Scan_Named_ok:
  assumes "SetBytesRecv (env n) \<noteq> None" and "hexutil_Decode hexStr = Inr b"
  shows "Scan env (Named n) dst (DBString hexStr) =
           Return (None, Val n (SetBytesFn (env n) b (zeroValue (env n))))"
  using assms by (simp add: Scan_def Scan_decoded_def reflect_New_def)

lemma Scan_Ptr_ok:
  assumes "SetBytesRecv (env n) \<noteq> None" and "hexutil_Decode hexStr = Inr b"
  shows "Scan env (PtrT (Named n)) dst (DBString hexStr) =
           Return (None, Ref (Val n (SetBytesFn (env n) b (zeroValue (env n)))))"
  using assms by (simp add: Scan_def Scan_decoded_def reflect_New_def)

lemma Value_Named_ok:
  assumes "BytesRecv (env n) = Some ValueRecv"
  shows "Value env (Named n) (Some (Val n v)) =
           Return (DBString (hexutil_Encode (BytesFn (env n) v)), None)"
  using assms by (simp add: Value_def)

lemma Value_Ptr_ok:
  assumes "BytesRecv (env n) \<noteq> None"
  shows "Value env (PtrT (Named n)) (Some (Ref (Val n v))) =
           Return (DBString (hexutil_Encode (BytesFn (env n) v)), None)"
  using assms by (simp add: Value_def)

text \<open>
  Claim C2. Let a defined type declare \<^verbatim>\<open>SetBytes\<close>, and let \<open>v\<close> be a value of it that is
  in range: \<^verbatim>\<open>SetBytes\<close> of its \<^verbatim>\<open>Bytes()\<close> on the zero value gives \<open>v\<close> again. Then
  \<^verbatim>\<open>Scan\<close> of the string \<^verbatim>\<open>Value\<close> produces for \<open>v\<close> stores \<open>v\<close> in the field, with no
  error: for a field of the type itself (\<^verbatim>\<open>Bytes\<close> with a value receiver) and for a field
  of the pointer type. A nil interface and a nil pointer in a pointer field encode to the
  nil storage value with no error. A nil database value is decoded with no error, and
  \<^verbatim>\<open>Scan\<close> returns before it writes the field: the field keeps the value it had, and is
  the zero value after the call exactly when it was the zero value before.
\<close>
theorem Scan_Value_round_trip:
  assumes "SetBytesRecv (env n) \<noteq> None"
    and "SetBytesFn (env n) (BytesFn (env n) v) (zeroValue (env n)) = v"
  shows "(BytesRecv (env n) = Some ValueRecv \<longrightarrow>
            Value env (Named n) (Some (Val n v)) =
              Return (DBString (hexutil_Encode (BytesFn (env n) v)), None)
            \<and> Scan env (Named n) dst (DBString (hexutil_Encode (BytesFn (env n) v))) =
              Return (None, Val n v))
       \<and> (BytesRecv (env n) \<noteq> None \<longrightarrow>
            Value env (PtrT (Named n)) (Some (Ref (Val n v))) =
              Return (DBString (hexutil_Encode (BytesFn (env n) v)), None)
            \<and> Scan env (PtrT (Named n)) dst (DBString (hexutil_Encode (BytesFn (env n) v))) =
              Return (None, Ref (Val n v)))
       \<and> Value env FieldType None = Return (DBNil, None)
       \<and> Value env (PtrT t) (Some (NilPtr t)) = Return (DBNil, None)
       \<and> Scan env FieldType dst DBNil = Return (None, dst)
       \<and> Scan env FieldType (Zero env FieldType) DBNil = Return (None, Zero env FieldType)"
proof (intro conjI impI)
  assume "BytesRecv (env n) = Some ValueRecv"
  then show "Value env (Named n) (Some (Val n v)) =
              Return (DBString (hexutil_Encode (BytesFn (env n) v)), None)"
    by (rule Value_Named_ok)
next
  show "Scan env (Named n) dst (DBString (hexutil_Encode (BytesFn (env n) v))) =
              Return (None, Val n v)"
    using Scan_Named_ok [of env n "hexutil_Encode (BytesFn (env n) v)" "BytesFn (env n) v" dst]
      assms hexutil_Decode_Encode by simp
next
  assume "BytesRecv (env n) \<noteq> None"
  then show "Value env (PtrT (Named n)) (Some (Ref (Val n v))) =
              Return (DBString (hexutil_Encode (BytesFn (env n) v)), None)"
    by (rule Value_Ptr_ok)
next
  show "Scan env (PtrT (Named n)) dst (DBString (hexutil_Encode (BytesFn (env n) v))) =
              Return (None, Ref (Val n v))"
    using Scan_Ptr_ok [of env n "hexutil_Encode (BytesFn (env n) v)" "BytesFn (env n) v" dst]
      assms hexutil_Decode_Encode by simp
qed (simp_all add: Value_def Scan_def)

theorem Scan_Value_round_trip_witness:
  "Value go_ethereum (Named ''common.Address'') (Some (Val ''common.Address'' scanner_address)) =
     Return (DBString (hexutil_Encode scanner_address), None)
   \<and> Scan go_ethereum (Named ''common.Address'') (Val ''common.Address'' (replicate 20 0))
        (DBString (hexutil_Encode scanner_address)) =
     Return (None, Val ''common.Address'' scanner_address)"
  using Scan_Value_round_trip [of go_ethereum "''common.Address''" scanner_address
      "Val ''common.Address'' (replicate 20 0)", THEN conjunct1]
  by (simp add: go_ethereum_def common_Address_def Address_SetBytes_def scanner_address_def)

text \<open>
  Claim C2, as stated, has a nil database value decode to the zero field. A field that
  holds the address \<^verbatim>\<open>0x0fa09C3A328792253f8dee7116848723b72a6d2e\<close> still holds it after
  \<^verbatim>\<open>Scan\<close> of a nil database value, and that is not the zero address.
\<close>

theorem Scan_nil_keeps_nonzero_field_counterexample:
  "Scan go_ethereum (Named ''common.Address'') (Val ''common.Address'' scanner_address) DBNil =
     Return (None, Val ''common.Address'' scanner_address)
   \<and> Val ''common.Address'' scanner_address \<noteq> Zero go_ethereum (Named ''common.Address'')"
proof -
  have "hd scanner_address = 15" by (simp add: scanner_address_def)
  moreover have "hd (replicate 20 (0 :: byte)) = 0" by simp
  ultimately have "hd scanner_address \<noteq> hd (replicate 20 (0 :: byte))" by simp
  then have "scanner_address \<noteq> replicate 20 0" by (rule contrapos_nn) (simp only:)
  then show ?thesis
    by (simp add: Scan_def go_ethereum_def common_Address_def)
qed

lemma Scan_type_mismatch:
  "dbValue \<noteq> DBNil \<Longrightarrow> \<forall>s. dbValue \<noteq> DBString s \<Longrightarrow>
     Scan env FieldType dst dbValue =
       Return (Some (ErrorfT ''expected hex string as the database value: %T'' (typeName dbValue)), dst)"
  by (cases dbValue) (simp_all add: Scan_def)

lemma Scan_decode_error:
  "hexutil_Decode hexStr = Inl err \<Longrightarrow>
     Scan env FieldType dst (DBString hexStr) =
       Return (Some (ErrorfW ''failed to decode database value: %w'' err), dst)"
  by (simp add: Scan_def)

lemma Scan_capability_mismatch:
  "hexutil_Decode hexStr = Inr b \<Longrightarrow> SetBytesRecv (env n) = None \<Longrightarrow>
     Scan env (Named n) dst (DBString hexStr) =
       Return (Some (ErrorfT ''field does not satisfy the `SetBytes([]byte)` interface: %T''
                       (CHR ''*'' # n)), dst)
     \<and> Scan env (PtrT (Named n)) dst (DBString hexStr) =
       Return (Some (ErrorfT ''field does not satisfy the `SetBytes([]byte)` interface: %T''
                       (CHR ''*'' # n)), dst)"
  by (simp add: Scan_def Scan_decoded_def reflect_New_def)

lemma Scan_double_pointer:
  "hexutil_Decode hexStr = Inr b \<Longrightarrow>
     Scan env (PtrT (PtrT t)) dst (DBString hexStr) =
       Return (Some (ErrorfT ''field does not satisfy the `SetBytes([]byte)` interface: %T''
                       (type_String (PtrT (PtrT t)))), dst)"
  by (simp add: Scan_def Scan_decoded_def reflect_New_def TypeOf_Zero)


text \<open>
  Claim C3. The claim names four failures of \<^verbatim>\<open>Scan\<close>. Three are as it says, by the
  lemmas \<open>Scan_type_mismatch\<close>, \<open>Scan_decode_error\<close> and \<open>Scan_capability_mismatch\<close>. The
  fourth is not: the test \<^verbatim>\<open>nestedField.Elem().Kind() == reflect.Pointer\<close> reads the
  \<^verbatim>\<open>Elem\<close> of a pointer that is still nil, which is the zero Value of kind \<^verbatim>\<open>Invalid\<close>, so
  the unsupported-depth error is never returned. For the field type
  \<^verbatim>\<open>**common.Address\<close> and the stored string \<^verbatim>\<open>0x01\<close>, \<^verbatim>\<open>Scan\<close> allocates the inner pointer
  and fails with the capability-mismatch error for \<^verbatim>\<open>**common.Address\<close>.
\<close>
theorem Scan_double_pointer_capability_mismatch:
  "Scan go_ethereum (PtrT (PtrT (Named ''common.Address'')))
        (NilPtr (PtrT (Named ''common.Address''))) (DBString ''0x01'') =
     Return (Some (ErrorfT ''field does not satisfy the `SetBytes([]byte)` interface: %T''
                     ''**common.Address''),
             NilPtr (PtrT (Named ''common.Address'')))"
  by (simp add: Scan_def Scan_decoded_def hexutil_Decode_def has0xPrefix_def reflect_New_def
      reverseHexTable_def)

section \<open>Properties of the addresses table\<close>

lemma hex_EncodeToString_digits: "set (hex_EncodeToString a) \<subseteq> set hextable"
proof (induction a)
  case Nil
  then show ?case by simp
next
  case (Cons v a)
  have "length hextable = 16" by (simp add: hextable_def)
  then have "hextable ! unat (drop_bit 4 v) \<in> set hextable" "hextable ! unat (v AND 15) \<in> set hextable"
    using high_nibble_less [of v] low_nibble_less [of v] by (simp_all add: nth_mem)
  with Cons.IH show ?case by simp
qed

lemma char_of_eq_iff: "char_of (n :: nat) = c \<longleftrightarrow> n mod 256 = of_char c"
proof
  assume "char_of n = c"
  then have "(of_char (char_of n) :: nat) = of_char c" by simp
  then show "n mod 256 = of_char c" by (simp add: of_char_of)
next
  assume "n mod 256 = of_char c"
  then have "char_of (n mod 256) = char_of (of_char c :: nat)" by simp
  then show "char_of n = c" by simp
qed

lemma ToLower_checksum_digit:
  assumes "c \<in> set hextable"
  shows "(if 65 \<le> (of_char (if of_char c > (57 :: nat) \<and> up then char_of (of_char c - (32 :: nat)) else c) :: nat)
             \<and> (of_char (if of_char c > (57 :: nat) \<and> up then char_of (of_char c - (32 :: nat)) else c) :: nat) \<le> 90
          then char_of (of_char (if of_char c > (57 :: nat) \<and> up then char_of (of_char c - (32 :: nat)) else c) + (32 :: nat))
          else (if of_char c > (57 :: nat) \<and> up then char_of (of_char c - (32 :: nat)) else c)) = c"
  using assms by (auto simp: hextable_def char_of_eq_iff)

lemma ToLower_checksumHex: "ToLower (checksumHex Keccak256 a) = hexutil_Encode a"
proof -
  let ?buf = "hex_EncodeToString a"
  have "\<forall>j<length ?buf. ?buf ! j \<in> set hextable"
    using hex_EncodeToString_digits [of a] nth_mem by blast
  then have "map (\<lambda>j. ?buf ! j) [0..<length ?buf] =
        map ((\<lambda>c. if 65 \<le> (of_char c :: nat) \<and> (of_char c :: nat) \<le> 90
                        then char_of (of_char c + (32 :: nat)) else c) \<circ>
             (\<lambda>j. let c = ?buf ! j;
                          hashByte = (if even j then drop_bit 4 (Keccak256 ?buf ! (j div 2))
                                      else Keccak256 ?buf ! (j div 2) AND 15)
                      in if of_char c > (57 :: nat) \<and> hashByte > 7
                         then char_of (of_char c - (32 :: nat)) else c)) [0..<length ?buf]"
    by (intro map_cong refl) (simp add: Let_def ToLower_checksum_digit del: of_char_eq_iff)
  then show ?thesis
    by (simp add: ToLower_def checksumHex_def hexutil_Encode_def Let_def map_nth o_def)
qed

lemma hexutil_Encode_inject: "hexutil_Encode a = hexutil_Encode b \<longleftrightarrow> a = b"
  by (metis hexutil_Decode_Encode sum.inject(2))

lemma Take_found:
  "fault g = None \<Longrightarrow> find cond (rows g) = Some r \<Longrightarrow> Take g cond = Inr r"
  by (simp add: Take_def)

lemma Take_not_found:
  "fault g = None \<Longrightarrow> \<forall>r\<in>set (rows g). \<not> cond r \<Longrightarrow> Take g cond = Inl ErrRecordNotFound"
proof -
  assume "fault g = None" and "\<forall>r\<in>set (rows g). \<not> cond r"
  moreover from this have "find cond (rows g) = None" by (simp add: find_None_iff)
  ultimately show ?thesis by (simp add: Take_def)
qed

lemma Take_fault: "fault g = Some err \<Longrightarrow> Take g cond = Inl err"
  by (simp add: Take_def)

lemma AddressExist_key:
  "AddressExist Keccak256 g address =
     (case First g (\<lambda>r. Address r = address) of
        Inl err \<Rightarrow> (False, 0)
      | Inr addressEntry \<Rightarrow> (True, AddressType addressEntry))"
proof -
  have "Where_address (ToLower (Address_String Keccak256 address)) = (\<lambda>r. Address r = address)"
    by (simp add: Where_address_def Address_String_def ToLower_checksumHex
        hexutil_Encode_inject fun_eq_iff)
  then show ?thesis
    by (simp add: AddressExist_def split: sum.splits)
qed

text \<open>
  Claim C8. The key \<^verbatim>\<open>AddressExist\<close> looks up, \<^verbatim>\<open>strings.ToLower(address.String())\<close>, is
  the lower-case hex text of the 20 bytes, whatever letters the checksum rendering put in
  upper case, so every rendering of an address queries the same key. \<^verbatim>\<open>AddressExist\<close>
  returns \<^verbatim>\<open>(false, 0)\<close> when no row has the address and also when the query fails with
  any error; when a row has the address it returns \<^verbatim>\<open>true\<close> and the \<^verbatim>\<open>address_type\<close> of a
  row with that address.
\<close>
theorem AddressExist_normalised_lookup:
  "ToLower (Address_String Keccak256 address) = hexutil_Encode address
   \<and> ToLower (Address_String Keccak256 address) = ToLower (Address_String Keccak256' address)
   \<and> (fault g = None \<and> (\<forall>r\<in>set (rows g). Address r \<noteq> address) \<longrightarrow>
        AddressExist Keccak256 g address = (False, 0))
   \<and> (fault g = Some err \<longrightarrow> AddressExist Keccak256 g address = (False, 0))
   \<and> (fault g = None \<and> (\<exists>r\<in>set (rows g). Address r = address) \<longrightarrow>
        (\<exists>r\<in>set (rows g). Address r = address
            \<and> AddressExist Keccak256 g address = (True, AddressType r)))"
proof (intro conjI impI)
  show "ToLower (Address_String Keccak256 address) = hexutil_Encode address"
    by (simp add: Address_String_def ToLower_checksumHex)
  show "ToLower (Address_String Keccak256 address) = ToLower (Address_String Keccak256' address)"
    by (simp add: Address_String_def ToLower_checksumHex)
next
  assume "fault g = None \<and> (\<forall>r\<in>set (rows g). Address r \<noteq> address)"
  then show "AddressExist Keccak256 g address = (False, 0)"
    by (simp add: AddressExist_key First_def Take_not_found)
next
  assume "fault g = Some err"
  then show "AddressExist Keccak256 g address = (False, 0)"
    by (simp add: AddressExist_key First_def Take_def)
next
  assume a: "fault g = None \<and> (\<exists>r\<in>set (rows g). Address r = address)"
  then have "find (\<lambda>r. Address r = address) (sort_key GUID (rows g)) \<noteq> None"
    by (auto simp: find_None_iff)
  then obtain r where f: "find (\<lambda>r. Address r = address) (sort_key GUID (rows g)) = Some r"
    by auto
  then have "r \<in> set (sort_key GUID (rows g))" "Address r = address"
    by (auto simp only: find_Some_iff intro: nth_mem)
  then have "r \<in> set (rows g)" "Address r = address"
    by simp_all
  moreover have "AddressExist Keccak256 g address = (True, AddressType r)"
    using a f by (simp add: AddressExist_key First_def Take_def)
  ultimately show "\<exists>r\<in>set (rows g). Address r = address
            \<and> AddressExist Keccak256 g address = (True, AddressType r)"
    by blast
qed


theorem AddressExist_normalised_lookup_witness:
  "AddressExist (\<lambda>s. replicate 32 255)
     \<lparr>rows = [address_row ''a'' scanner_address 1], fault = None\<rparr> scanner_address = (True, 1)
   \<and> AddressExist (\<lambda>s. replicate 32 0) \<lparr>rows = [], fault = None\<rparr> scanner_address = (False, 0)
   \<and> AddressExist (\<lambda>s. replicate 32 0)
        \<lparr>rows = [address_row ''a'' scanner_address 1], fault = Some (Failure ''connection reset'')\<rparr>
        scanner_address = (False, 0)
   \<and> ToLower (Address_String (\<lambda>s. replicate 32 255) scanner_address) =
       ToLower (Address_String (\<lambda>s. replicate 32 0) scanner_address)"
proof -
  note t = AddressExist_normalised_lookup
  have 1: "AddressExist (\<lambda>s. replicate 32 255)
     \<lparr>rows = [address_row ''a'' scanner_address 1], fault = None\<rparr> scanner_address = (True, 1)"
    using t [of "\<lambda>s. replicate 32 255" scanner_address _
        "\<lparr>rows = [address_row ''a'' scanner_address 1], fault = None\<rparr>",
        THEN conjunct2, THEN conjunct2, THEN conjunct2, THEN conjunct2]
    by (simp add: address_row_def)
  have 2: "AddressExist (\<lambda>s. replicate 32 0) \<lparr>rows = [], fault = None\<rparr> scanner_address = (False, 0)"
    using t [of "\<lambda>s. replicate 32 0" scanner_address _ "\<lparr>rows = [], fault = None\<rparr>",
        THEN conjunct2, THEN conjunct2, THEN conjunct1]
    by simp
  have 3: "AddressExist (\<lambda>s. replicate 32 0)
        \<lparr>rows = [address_row ''a'' scanner_address 1], fault = Some (Failure ''connection reset'')\<rparr>
        scanner_address = (False, 0)"
    using t [of "\<lambda>s. replicate 32 0" scanner_address _
        "\<lparr>rows = [address_row ''a'' scanner_address 1], fault = Some (Failure ''connection reset'')\<rparr>"
        "Failure ''connection reset''",
        THEN conjunct2, THEN conjunct2, THEN conjunct2, THEN conjunct1]
    by simp
  have 4: "ToLower (Address_String (\<lambda>s. replicate 32 255) scanner_address) =
       ToLower (Address_String (\<lambda>s. replicate 32 0) scanner_address)"
    using t [of "\<lambda>s. replicate 32 255" scanner_address "\<lambda>s. replicate 32 0",
        THEN conjunct2, THEN conjunct1] .
  show ?thesis using 1 2 3 4 by simp
qed

lemma wallet_query:
  "(case Take g (Where_address_type t) of
        Inl err \<Rightarrow> (if errors_Is err ErrRecordNotFound then (None, None) else (None, Some err))
      | Inr addressEntry \<Rightarrow> (Some addressEntry, None)) = res
   \<Longrightarrow>
   (fault g = None \<and> i < length (rows g) \<and> AddressType (rows g ! i) = t
       \<and> (\<forall>j<i. AddressType (rows g ! j) \<noteq> t) \<longrightarrow> res = (Some (rows g ! i), None))
   \<and> (fault g = None \<and> (\<forall>r\<in>set (rows g). AddressType r \<noteq> t) \<longrightarrow> res = (None, None))
   \<and> (fault g = Some err \<and> \<not> errors_Is err ErrRecordNotFound \<longrightarrow> res = (None, Some err))"
proof (intro conjI impI)
  assume r: "(case Take g (Where_address_type t) of
        Inl err \<Rightarrow> (if errors_Is err ErrRecordNotFound then (None, None) else (None, Some err))
      | Inr addressEntry \<Rightarrow> (Some addressEntry, None)) = res"
  {
    assume a: "fault g = None \<and> i < length (rows g) \<and> AddressType (rows g ! i) = t
       \<and> (\<forall>j<i. AddressType (rows g ! j) \<noteq> t)"
    then have "find (Where_address_type t) (rows g) = Some (rows g ! i)"
      unfolding find_Some_iff Where_address_type_def by blast
    with a r show "res = (Some (rows g ! i), None)"
      by (simp add: Take_def)
  next
    assume "fault g = None \<and> (\<forall>r\<in>set (rows g). AddressType r \<noteq> t)"
    with r show "res = (None, None)"
      by (simp add: Take_not_found Where_address_type_def)
  next
    assume "fault g = Some err \<and> \<not> errors_Is err ErrRecordNotFound"
    with r show "res = (None, Some err)"
      by (simp add: Take_def)
  }
qed

text \<open>
  Claim C7. \<^verbatim>\<open>QueryHotWalletInfo\<close> (\<^verbatim>\<open>address_type\<close> 1) and \<^verbatim>\<open>QueryColdWalletInfo\<close>
  (\<^verbatim>\<open>address_type\<close> 2) return the first row of that classification with a nil error;
  \<^verbatim>\<open>(nil, nil)\<close> when the table has no such row; and \<^verbatim>\<open>nil\<close> with the error itself when the
  storage fails with an error that is not \<^verbatim>\<open>ErrRecordNotFound\<close>.
\<close>
theorem Query_wallet_info:
  "(fault g = None \<and> i < length (rows g) \<and> AddressType (rows g ! i) = 1
       \<and> (\<forall>j<i. AddressType (rows g ! j) \<noteq> 1) \<longrightarrow>
      QueryHotWalletInfo g = (Some (rows g ! i), None))
   \<and> (fault g = None \<and> (\<forall>r\<in>set (rows g). AddressType r \<noteq> 1) \<longrightarrow>
        QueryHotWalletInfo g = (None, None))
   \<and> (fault g = Some err \<and> \<not> errors_Is err ErrRecordNotFound \<longrightarrow>
        QueryHotWalletInfo g = (None, Some err))
   \<and> (fault g = None \<and> i < length (rows g) \<and> AddressType (rows g ! i) = 2
       \<and> (\<forall>j<i. AddressType (rows g ! j) \<noteq> 2) \<longrightarrow>
      QueryColdWalletInfo g = (Some (rows g ! i), None))
   \<and> (fault g = None \<and> (\<forall>r\<in>set (rows g). AddressType r \<noteq> 2) \<longrightarrow>
        QueryColdWalletInfo g = (None, None))
   \<and> (fault g = Some err \<and> \<not> errors_Is err ErrRecordNotFound \<longrightarrow>
        QueryColdWalletInfo g = (None, Some err))"
  using wallet_query [of g 1 "QueryHotWalletInfo g" i err]
        wallet_query [of g 2 "QueryColdWalletInfo g" i err]
  unfolding QueryHotWalletInfo_def QueryColdWalletInfo_def by blast

theorem Query_wallet_info_witness:
  "QueryHotWalletInfo
     \<lparr>rows = [address_row ''a'' [1] 0, address_row ''b'' [2] 1, address_row ''c'' [3] 2,
              address_row ''d'' [4] 1], fault = None\<rparr>
     = (Some (address_row ''b'' [2] 1), None)
   \<and> QueryHotWalletInfo \<lparr>rows = [], fault = None\<rparr> = (None, None)
   \<and> QueryColdWalletInfo \<lparr>rows = [address_row ''a'' [1] 0], fault = None\<rparr> = (None, None)
   \<and> QueryColdWalletInfo \<lparr>rows = [], fault = Some (Failure ''connection reset'')\<rparr>
     = (None, Some (Failure ''connection reset''))"
proof -
  let ?g = "\<lparr>rows = [address_row ''a'' [1] 0, address_row ''b'' [2] 1, address_row ''c'' [3] 2,
              address_row ''d'' [4] 1], fault = None\<rparr>"
  have 1: "QueryHotWalletInfo ?g = (Some (address_row ''b'' [2] 1), None)"
    using Query_wallet_info [of ?g 1, THEN conjunct1]
    by (simp add: address_row_def less_Suc_eq)
  have 2: "QueryHotWalletInfo \<lparr>rows = [], fault = None\<rparr> = (None, None)"
    using Query_wallet_info [of "\<lparr>rows = [], fault = None\<rparr>", THEN conjunct2, THEN conjunct1]
    by simp
  have 3: "QueryColdWalletInfo \<lparr>rows = [address_row ''a'' [1] 0], fault = None\<rparr> = (None, None)"
    using Query_wallet_info [of "\<lparr>rows = [address_row ''a'' [1] 0], fault = None\<rparr>",
        THEN conjunct2, THEN conjunct2, THEN conjunct2, THEN conjunct2, THEN conjunct1]
    by (simp add: address_row_def)
  have 4: "QueryColdWalletInfo \<lparr>rows = [], fault = Some (Failure ''connection reset'')\<rparr>
     = (None, Some (Failure ''connection reset''))"
    using Query_wallet_info [of "\<lparr>rows = [], fault = Some (Failure ''connection reset'')\<rparr>" _
        "Failure ''connection reset''",
        THEN conjunct2, THEN conjunct2, THEN conjunct2, THEN conjunct2, THEN conjunct2]
    by simp
  show ?thesis using 1 2 3 4 by simp
qed


section \<open>Properties of the migration\<close>

lemma migrate_file_directory:
  "migrate_file Exec migrationsFolder path (Entry (Dir err names) None) s = (None, s)"
  by (simp add: migrate_file_def)

lemma Contains_append: "Contains (p @ substr @ q) substr"
proof (induction p)
  case Nil
  have "HasPrefix (substr @ q) substr" by (induction substr) simp_all
  then show ?case by (cases "substr @ q") (auto)
next
  case (Cons x p)
  then show ?case by simp
qed

lemma migrate_file_rejects_dotdot:
  assumes "Rel migrationsFolder path = Inl err \<or> (\<exists>p q. Rel migrationsFolder path = Inr (p @ ''..'' @ q))"
  shows "migrate_file Exec migrationsFolder path (Entry (File content) None) s =
           (Some (New ''invalid migration file path''), s)"
  using assms Contains_append [of _ "''..''"]
  by (auto simp: migrate_file_def)

lemma migrate_file_executes:
  assumes "Rel migrationsFolder path = Inr relativePath" and "\<not> Contains relativePath ''..''"
    and "Exec fileContent = None"
  shows "migrate_file Exec migrationsFolder path (Entry (File (Inr fileContent)) None) s =
           (None, s\<lparr>reads := reads s @ [path], executed := executed s @ [fileContent]\<rparr>)"
  using assms by (simp add: migrate_file_def)

text \<open>
  Claim C9. Directories are skipped (\<open>migrate_file_directory\<close>), a relative path with a
  \<^verbatim>\<open>..\<close> in it is rejected before the file is read (\<open>migrate_file_rejects_dotdot\<close>), and
  a file that passes the test is read and executed as one script
  (\<open>migrate_file_executes\<close>). But the test is \<^verbatim>\<open>strings.Contains(relativePath, "..")\<close>,
  which also holds for a file inside the folder whose name has two dots in a row: in a
  folder with \<^verbatim>\<open>001_init.sql\<close>, \<^verbatim>\<open>002_v1..2.sql\<close> and \<^verbatim>\<open>003_last.sql\<close> the first file is
  executed, the second is rejected as an invalid path, though its path relative to the
  folder is its own name, and neither it nor the third is read or executed.
\<close>
theorem ExecuteSQLMigration_rejects_file_inside_root:
  "ExecuteSQLMigration (\<lambda>script. None) ''migrations'' migrations_dir =
     (Some (New ''invalid migration file path''),
      \<lparr>reads = [''migrations/001_init.sql''], executed = [''CREATE TABLE a ();'']\<rparr>)
   \<and> Rel ''migrations'' (Join ''migrations'' ''002_v1..2.sql'') = Inr ''002_v1..2.sql''"
  by (simp add: ExecuteSQLMigration_def Walk_def migrations_dir_def migrate_file_def Join_def
      Rel_def)

end
